theory Spec2Isabelle
  imports Complex_Main
begin

section \<open>JavaScript values as the gateway sees them\<close>

text \<open>
  The gateway receives request bodies and model replies as parsed JSON. A value is one of
  the JSON shapes, plus \<open>undefined\<close> for an absent property. A string is a sequence of
  code units, one \<open>char\<close> each; a number is an integral number (fractions, infinities and
  NaN are outside the model, no operation of the gateway computes with them); an object is
  its list of own properties, looked up by key.
\<close>

datatype jsval =
    JUndef
  | JNull
  | JBool bool
  | JNum int
  | JStr string
  | JArr "jsval list"
  | JObj "(string \<times> jsval) list"

text \<open>
  What a JavaScript expression can throw here: a \<open>TypeError\<close> of the language itself
  (with the engine's message), the \<open>Error\<close> that \<open>runChat\<close> constructs, and the error
  object that the LLM client rejects with, which may carry a numeric \<open>status\<close> or
  \<open>statusCode\<close> beside its \<open>message\<close>.
\<close>

datatype js_exn =
    TypeError string
  | Error string
  | APIError "int option" "int option" string

text \<open>\<open>ToBoolean\<close>: the operand test of \<open>!\<close>, \<open>||\<close> and \<open>?:\<close>.\<close>

fun truthy :: "jsval \<Rightarrow> bool" where
  "truthy JUndef = False"
| "truthy JNull = False"
| "truthy (JBool b) = b"
| "truthy (JNum n) = (n \<noteq> 0)"
| "truthy (JStr s) = (s \<noteq> [])"
| "truthy (JArr xs) = True"
| "truthy (JObj ps) = True"

text \<open>\<open>a || b\<close> on values.\<close>

definition js_or :: "jsval \<Rightarrow> jsval \<Rightarrow> jsval" where
  "js_or a b = (if truthy a then a else b)"

text \<open>\<open>a || b\<close> on strings: the empty string is the only falsy one.\<close>

definition str_or :: "string \<Rightarrow> string \<Rightarrow> string" where
  "str_or a b = (if a \<noteq> [] then a else b)"

fun nullish :: "jsval \<Rightarrow> bool" where
  "nullish JUndef = True"
| "nullish JNull = True"
| "nullish v = False"

text \<open>
  Property reads, for the keys the gateway uses (none of them is a built-in property such
  as \<open>length\<close>, nor a method that a plain object or a string inherits). \<open>v.k\<close> throws on
  \<open>null\<close> and \<open>undefined\<close>; \<open>v?.k\<close> yields \<open>undefined\<close> there. A primitive or an array
  has no such property. (An array does inherit a method named \<open>entries\<close>; the gateway
  hands that value to \<open>clipCollection\<close> only, which treats whatever is not an array alike.)
\<close>

fun own_prop :: "jsval \<Rightarrow> string \<Rightarrow> jsval" where
  "own_prop (JObj ps) k = (case map_of ps k of Some v \<Rightarrow> v | None \<Rightarrow> JUndef)"
| "own_prop v k = JUndef"

definition opt_get :: "jsval \<Rightarrow> string \<Rightarrow> jsval" where
  "opt_get v k = (if nullish v then JUndef else own_prop v k)"

definition get :: "jsval \<Rightarrow> string \<Rightarrow> js_exn + jsval" where
  "get v k =
     (case v of
        JUndef \<Rightarrow> Inl (TypeError (''Cannot read properties of undefined (reading '' @ [CHR 0x27] @ k @ [CHR 0x27] @ '')''))
      | JNull \<Rightarrow> Inl (TypeError (''Cannot read properties of null (reading '' @ [CHR 0x27] @ k @ [CHR 0x27] @ '')''))
      | _ \<Rightarrow> Inr (own_prop v k))"

text \<open>\<open>v?.[0]\<close>: the first element of an array, the first code unit of a string, the
  property \<open>"0"\<close> of an object.\<close>

fun opt_index0 :: "jsval \<Rightarrow> jsval" where
  "opt_index0 (JArr xs) = (case xs of [] \<Rightarrow> JUndef | x # _ \<Rightarrow> x)"
| "opt_index0 (JStr s) = (case s of [] \<Rightarrow> JUndef | c # _ \<Rightarrow> JStr [c])"
| "opt_index0 (JObj ps) = own_prop (JObj ps) ''0''"
| "opt_index0 v = JUndef"

subsection \<open>String conversion\<close>

text \<open>Decimal digits of a natural number, as \<open>Number.prototype.toString\<close> prints them.\<close>

definition digit_char :: "nat \<Rightarrow> char" where
  "digit_char n = ''0123456789'' ! n"

function show_nat :: "nat \<Rightarrow> string" where
  "show_nat n = (if n < 10 then [digit_char n] else show_nat (n div 10) @ [digit_char (n mod 10)])"
  by pat_completeness auto
termination
  by (relation "measure (\<lambda>n. n)") auto

definition show_int :: "int \<Rightarrow> string" where
  "show_int i = (if i < 0 then CHR ''-'' # show_nat (nat (- i)) else show_nat (nat i))"

text \<open>Running a list of computations in order; the first exception wins.\<close>

fun sequence :: "(js_exn + 'a) list \<Rightarrow> js_exn + 'a list" where
  "sequence [] = Inr []"
| "sequence (r # rs) =
     (case r of
        Inl e \<Rightarrow> Inl e
      | Inr x \<Rightarrow> (case sequence rs of Inl e \<Rightarrow> Inl e | Inr xs \<Rightarrow> Inr (x # xs)))"

fun join_comma :: "string list \<Rightarrow> string" where
  "join_comma [] = []"
| "join_comma [s] = s"
| "join_comma (s # t # ss) = s @ '','' @ join_comma (t # ss)"

text \<open>
  \<open>String(v)\<close>. A primitive prints itself. An array prints its elements joined by commas,
  \<open>null\<close> and \<open>undefined\<close> elements as nothing. A plain object prints as
  \<open>[object Object]\<close> through the inherited \<open>toString\<close>; when the object has an own
  property \<open>toString\<close> (never callable in parsed JSON) the conversion finds no method
  that yields a primitive and throws a \<open>TypeError\<close>.
\<close>

fun toStr :: "jsval \<Rightarrow> js_exn + string" where
  "toStr JUndef = Inr ''undefined''"
| "toStr JNull = Inr ''null''"
| "toStr (JBool b) = Inr (if b then ''true'' else ''false'')"
| "toStr (JNum n) = Inr (show_int n)"
| "toStr (JStr s) = Inr s"
| "toStr (JArr xs) =
     (case sequence (map (\<lambda>x. if nullish x then Inr [] else toStr x) xs) of
        Inl e \<Rightarrow> Inl e
      | Inr ss \<Rightarrow> Inr (join_comma ss))"
| "toStr (JObj ps) =
     (if ''toString'' \<in> set (map fst ps)
      then Inl (TypeError ''Cannot convert object to primitive value'')
      else Inr ''[object Object]'')"

text \<open>White space and line terminators, as \<open>String.prototype.trim\<close> strips them, among
  the code units below 256: tab, line feed, vertical tab, form feed, carriage return,
  space and the no-break space.\<close>

definition is_ws :: "char \<Rightarrow> bool" where
  "is_ws c = (c \<in> {CHR 0x09, CHR 0x0A, CHR 0x0B, CHR 0x0C, CHR 0x0D, CHR 0x20, CHR 0xA0})"

definition trim :: "string \<Rightarrow> string" where
  "trim s = rev (dropWhile is_ws (rev (dropWhile is_ws s)))"

section \<open>Bounding utilities\<close>

text \<open>
  \<^verbatim>\<open>
  const sanitize = (value, max = 800) => {
    if (value === null || value === undefined) return "";
    return String(value).trim().slice(0, max);
  };
  \<close>
  The cap is a natural number: every call site passes a positive literal or the default.
\<close>

definition sanitize :: "jsval \<Rightarrow> nat \<Rightarrow> js_exn + string" where
  "sanitize v m =
     (if v = JNull \<or> v = JUndef then Inr []
      else (case toStr v of Inl e \<Rightarrow> Inl e | Inr s \<Rightarrow> Inr (take m (trim s))))"

text \<open>
  \<^verbatim>\<open>
  const clipCollection = (input, limit = 20) => {
    if (!Array.isArray(input)) return [];
    return input.slice(0, limit);
  };
  \<close>
\<close>

definition clipCollection :: "jsval \<Rightarrow> nat \<Rightarrow> jsval list" where
  "clipCollection input limit = (case input of JArr xs \<Rightarrow> take limit xs | _ \<Rightarrow> [])"

text \<open>
  \<^verbatim>\<open>
  const safeJsonParse = (raw, fallback = {}) => {
    try { return JSON.parse(raw); } catch (err) { return fallback; }
  };
  \<close>
  \<open>JSON.parse\<close> belongs to the platform: it is a parameter, a function from a text to the
  parsed value, \<open>None\<close> where it throws a \<open>SyntaxError\<close>. It first converts its argument
  to a string, which can throw as well; the \<open>catch\<close> takes both.
\<close>

definition safeJsonParse :: "(string \<Rightarrow> jsval option) \<Rightarrow> jsval \<Rightarrow> jsval \<Rightarrow> jsval" where
  "safeJsonParse JSON_parse raw fallback =
     (case toStr raw of
        Inl e \<Rightarrow> fallback
      | Inr t \<Rightarrow> (case JSON_parse t of None \<Rightarrow> fallback | Some v \<Rightarrow> v))"

section \<open>Normalizers\<close>

text \<open>
  \<^verbatim>\<open>
  const normalizeEntries = (entries, limit = 20) =>
    clipCollection(entries, limit).map((item) => ({
      text: sanitize(item?.text || "", 500),
      created_at: item?.created_at || item?.createdAt || null,
    }));
  \<close>
\<close>

definition normalizeEntry :: "jsval \<Rightarrow> js_exn + jsval" where
  "normalizeEntry item =
     (case sanitize (js_or (opt_get item ''text'') (JStr [])) 500 of
        Inl e \<Rightarrow> Inl e
      | Inr t \<Rightarrow>
          Inr (JObj [(''text'', JStr t),
                     (''created_at'',
                        js_or (js_or (opt_get item ''created_at'') (opt_get item ''createdAt'')) JNull)]))"

definition normalizeEntries :: "jsval \<Rightarrow> nat \<Rightarrow> js_exn + jsval list" where
  "normalizeEntries entries limit = sequence (map normalizeEntry (clipCollection entries limit))"

text \<open>
  \<^verbatim>\<open>
  const normalizeMoods = (moods, limit = 20) =>
    clipCollection(moods, limit).map((item) => ({
      mood: sanitize(item?.mood || "", 50),
      note: sanitize(item?.note || "", 240),
      created_at: item?.created_at || null,
    }));
  \<close>
\<close>

definition normalizeMood :: "jsval \<Rightarrow> js_exn + jsval" where
  "normalizeMood item =
     (case sanitize (js_or (opt_get item ''mood'') (JStr [])) 50 of
        Inl e \<Rightarrow> Inl e
      | Inr m \<Rightarrow>
          (case sanitize (js_or (opt_get item ''note'') (JStr [])) 240 of
             Inl e \<Rightarrow> Inl e
           | Inr n \<Rightarrow>
               Inr (JObj [(''mood'', JStr m),
                          (''note'', JStr n),
                          (''created_at'', js_or (opt_get item ''created_at'') JNull)])))"

definition normalizeMoods :: "jsval \<Rightarrow> nat \<Rightarrow> js_exn + jsval list" where
  "normalizeMoods moods limit = sequence (map normalizeMood (clipCollection moods limit))"

section \<open>Invokers\<close>

record chat_message =
  role :: string
  content :: string

text \<open>The argument of \<open>chat.completions.create\<close>.\<close>

record chat_request =
  model :: string
  temperature :: rat
  max_tokens :: "nat option"
  response_format :: "string option"
  messages :: "chat_message list"

text \<open>The \<open>options\<close> of \<open>runChat\<close> and of \<open>runJsonChat\<close>; an absent key is \<open>None\<close>.\<close>

record chat_options =
  o_max_tokens :: "nat option"
  o_temperature :: "rat option"
  o_response_format :: "string option"

record json_options =
  maxTokens :: "nat option"
  j_temperature :: "rat option"

text \<open>
  The process-wide configuration and the platform. \<open>openAiClient\<close> is \<open>None\<close> when no API
  key was supplied at startup; otherwise it is the completion call, which resolves with a
  completion object (its properties) or rejects. \<open>JSON_stringify\<close> serialises a payload.
\<close>

record env =
  openAiClient :: "(chat_request \<Rightarrow> js_exn + (string \<times> jsval) list) option"
  OPENAI_MODEL :: string
  JSON_parse :: "string \<Rightarrow> jsval option"
  JSON_stringify :: "jsval \<Rightarrow> string"

text \<open>
  A computation that may call the LLM: the requests it sent, in order, and its result or
  the exception it threw.
\<close>

type_synonym 'a io = "chat_request list \<times> (js_exn + 'a)"

definition config_error :: string where
  "config_error = ''OPENAI_API_KEY is not configured on the API gateway''"

text \<open>
  \<^verbatim>\<open>
  async function runChat(messages, options = {}) {
    if (!openAiClient) throw new Error("OPENAI_API_KEY is not configured on the API gateway");
    const response = await openAiClient.chat.completions.create({
      model: OPENAI_MODEL, temperature: 0.4, ...options, messages });
    return response;
  }
  \<close>
\<close>

definition runChat :: "env \<Rightarrow> chat_message list \<Rightarrow> chat_options \<Rightarrow> ((string \<times> jsval) list) io" where
  "runChat env msgs options =
     (case openAiClient env of
        None \<Rightarrow> ([], Inl (Error config_error))
      | Some create \<Rightarrow>
          (let request =
                 \<lparr> model = OPENAI_MODEL env,
                   temperature = (case o_temperature options of Some t \<Rightarrow> t | None \<Rightarrow> 4 / 10),
                   max_tokens = o_max_tokens options,
                   response_format = o_response_format options,
                   messages = msgs \<rparr>
           in ([request], create request)))"

text \<open>\<open>response.choices?.[0]?.message?.content\<close> of a completion object.\<close>

definition reply_content :: "(string \<times> jsval) list \<Rightarrow> jsval" where
  "reply_content response =
     opt_get (opt_get (opt_index0 (own_prop (JObj response) ''choices'')) ''message'') ''content''"

text \<open>
  \<^verbatim>\<open>
  const runJsonChat = async (systemPrompt, userPayload, options = {}) => {
    const response = await runChat(
      [ { role: "system", content: systemPrompt },
        { role: "user",
          content: typeof userPayload === "string" ? userPayload : JSON.stringify(userPayload) } ],
      { response_format: { type: "json_object" },
        max_tokens: options.maxTokens || 400,
        temperature: options.temperature ?? 0.4 });
    return {
      json: safeJsonParse(response.choices?.[0]?.message?.content || "{}"),
      usage: response.usage || null,
    };
  };
  \<close>
  The result is the pair of \<open>json\<close> and \<open>usage\<close>.
\<close>

definition runJsonChat :: "env \<Rightarrow> string \<Rightarrow> jsval \<Rightarrow> json_options \<Rightarrow> (jsval \<times> jsval) io" where
  "runJsonChat env systemPrompt userPayload options =
     (case runChat env
             [ \<lparr> role = ''system'', content = systemPrompt \<rparr>,
               \<lparr> role = ''user'',
                 content = (case userPayload of JStr s \<Rightarrow> s | _ \<Rightarrow> JSON_stringify env userPayload) \<rparr> ]
             \<lparr> o_max_tokens =
                 Some (case maxTokens options of None \<Rightarrow> 400 | Some n \<Rightarrow> if n = 0 then 400 else n),
               o_temperature =
                 Some (case j_temperature options of None \<Rightarrow> 4 / 10 | Some t \<Rightarrow> t),
               o_response_format = Some ''json_object'' \<rparr> of
        (sent, Inl e) \<Rightarrow> (sent, Inl e)
      | (sent, Inr response) \<Rightarrow>
          (sent, Inr (safeJsonParse (JSON_parse env) (js_or (reply_content response) (JStr ''{}'')) (JObj []),
                     js_or (own_prop (JObj response) ''usage'') JNull)))"

section \<open>Availability guard and error envelope\<close>

text \<open>What a handler sends: \<open>res.status(n).send(b)\<close>; a plain \<open>res.send(b)\<close> is status 200.\<close>

record response =
  status :: int
  body :: jsval

text \<open>
  \<^verbatim>\<open>
  const ensureOpenAi = (res) => {
    if (!openAiClient) {
      res.status(503).send({ ok: false, error: "OPENAI_API_KEY is not configured on the API gateway" });
      return false;
    }
    return true;
  };
  \<close>
  The result is the response it has sent when it returns \<open>false\<close>, and \<open>None\<close> when it
  returns \<open>true\<close>.
\<close>

definition ensureOpenAi :: "env \<Rightarrow> response option" where
  "ensureOpenAi env =
     (case openAiClient env of
        None \<Rightarrow> Some \<lparr> status = 503, body = JObj [(''ok'', JBool False), (''error'', JStr config_error)] \<rparr>
      | Some create \<Rightarrow> None)"

text \<open>The properties of a caught exception that the \<open>catch\<close> blocks read.\<close>

fun exn_status :: "js_exn \<Rightarrow> int option" where
  "exn_status (APIError s c m) = s"
| "exn_status e = None"

fun exn_statusCode :: "js_exn \<Rightarrow> int option" where
  "exn_statusCode (APIError s c m) = c"
| "exn_statusCode e = None"

fun exn_message :: "js_exn \<Rightarrow> string" where
  "exn_message (TypeError m) = m"
| "exn_message (Error m) = m"
| "exn_message (APIError s c m) = m"

text \<open>
  The \<open>catch\<close> block that every AI handler repeats, with its own fallback text:
  \<^verbatim>\<open>
  } catch (err) {
    const status = err?.status || err?.statusCode || 502;
    res.status(status).send({ error: err.message || "<fallback>" });
  }
  \<close>
  An absent status and the number 0 are falsy.
\<close>

definition catch_response :: "js_exn \<Rightarrow> string \<Rightarrow> response" where
  "catch_response err fallback =
     \<lparr> status =
         (case exn_status err of
            Some n \<Rightarrow> if n \<noteq> 0 then n
                      else (case exn_statusCode err of Some c \<Rightarrow> if c \<noteq> 0 then c else 502 | None \<Rightarrow> 502)
          | None \<Rightarrow> (case exn_statusCode err of Some c \<Rightarrow> if c \<noteq> 0 then c else 502 | None \<Rightarrow> 502)),
       body = JObj [(''error'', JStr (str_or (exn_message err) fallback))] \<rparr>"

text \<open>\<open>response.choices?.[0]?.message?.content?.trim()\<close>: only a string has \<open>trim\<close>.\<close>

definition trimmed_reply :: "(string \<times> jsval) list \<Rightarrow> js_exn + jsval" where
  "trimmed_reply response =
     (case reply_content response of
        JUndef \<Rightarrow> Inr JUndef
      | JNull \<Rightarrow> Inr JUndef
      | JStr s \<Rightarrow> Inr (JStr (trim s))
      | _ \<Rightarrow> Inl (TypeError ''response.choices?.[0]?.message?.content?.trim is not a function''))"

section \<open>Endpoint dispatch table\<close>

text \<open>
  Each handler takes the configuration and the request body (\<open>req.body\<close>) and yields the
  requests it sent to the LLM together with the response it sent to the client, or the
  exception that left the handler.
\<close>

definition ai_insights :: "env \<Rightarrow> jsval \<Rightarrow> response io" where
  "ai_insights env reqbody =
     (case ensureOpenAi env of
        Some r \<Rightarrow> ([], Inr r)
      | None \<Rightarrow>
     (case sanitize (opt_get reqbody ''entry'') 800 of
        Inl e \<Rightarrow> ([], Inl e)
      | Inr latestEntry \<Rightarrow>
     (let latestMood = js_or (opt_get reqbody ''mood'') JNull;
          stats = js_or (opt_get reqbody ''stats'') JNull
      in
     (case (case opt_get reqbody ''goals'' of
              JArr gs \<Rightarrow> sequence (map (\<lambda>g. sanitize g 120) gs)
            | _ \<Rightarrow> Inr []) of
        Inl e \<Rightarrow> ([], Inl e)
      | Inr goals \<Rightarrow>
     if latestEntry = [] \<and> \<not> truthy latestMood \<and> \<not> truthy stats
     then ([], Inr \<lparr> status = 400,
                     body = JObj [(''error'', JStr ''Provide at least an entry, mood, or stats snapshot.'')] \<rparr>)
     else
     (case runJsonChat env
             ''You are an empathetic AI mentor. Analyse the data and output JSON with keys primary_emotion, summary, reflection, action_item, risk_level (low|medium|high), and partner_share (short supportive sentence).''
             (JObj [(''entry'', JStr latestEntry), (''mood'', latestMood), (''stats'', stats),
                    (''goals'', JArr (map JStr goals))])
             \<lparr> maxTokens = Some 350, j_temperature = None \<rparr> of
        (sent, Inr (json, usage)) \<Rightarrow>
          (sent, Inr \<lparr> status = 200, body = JObj [(''insights'', json), (''usage'', usage)] \<rparr>)
      | (sent, Inl err) \<Rightarrow>
          (sent, Inr (catch_response err ''Unable to fetch AI insights'')))))))"

definition ai_prompt :: "env \<Rightarrow> jsval \<Rightarrow> response io" where
  "ai_prompt env reqbody =
     (case ensureOpenAi env of
        Some r \<Rightarrow> ([], Inr r)
      | None \<Rightarrow>
     (case sanitize (opt_get reqbody ''focus'') 200 of
        Inl e \<Rightarrow> ([], Inl e)
      | Inr focus \<Rightarrow>
     (case sanitize (opt_get reqbody ''mood'') 40 of
        Inl e \<Rightarrow> ([], Inl e)
      | Inr m \<Rightarrow>
     (let mood = str_or m ''curious'' in
     (case sanitize (opt_get reqbody ''entry'') 400 of
        Inl e \<Rightarrow> ([], Inl e)
      | Inr entry \<Rightarrow>
     (case runChat env
             [ \<lparr> role = ''system'',
                 content = ''Create a single journaling prompt tailored to the user's current mood and context. Keep it under 220 characters.'' \<rparr>,
               \<lparr> role = ''user'',
                 content = ''Mood: '' @ mood @ [CHR 0x0A] @
                           ''Focus request: '' @ str_or focus ''balance and gratitude'' @ [CHR 0x0A] @
                           ''Most recent entry: '' @ str_or entry ''none'' \<rparr> ]
             \<lparr> o_max_tokens = Some 100, o_temperature = Some (8 / 10), o_response_format = None \<rparr> of
        (sent, Inr resp) \<Rightarrow>
          (case trimmed_reply resp of
             Inr prompt \<Rightarrow>
               (sent, Inr \<lparr> status = 200,
                              body = JObj [(''prompt'', js_or prompt (JStr ''Take a mindful breath and describe one highlight from today.'')),
                                           (''usage'', js_or (own_prop (JObj resp) ''usage'') JNull)] \<rparr>)
           | Inl err \<Rightarrow> (sent, Inr (catch_response err ''Unable to fetch AI prompt'')))
      | (sent, Inl err) \<Rightarrow>
          (sent, Inr (catch_response err ''Unable to fetch AI prompt''))))))))"

definition ai_summary :: "env \<Rightarrow> jsval \<Rightarrow> response io" where
  "ai_summary env reqbody =
     (case ensureOpenAi env of
        Some r \<Rightarrow> ([], Inr r)
      | None \<Rightarrow>
     (case normalizeEntries (opt_get reqbody ''entries'') 20 of
        Inl e \<Rightarrow> ([], Inl e)
      | Inr entries \<Rightarrow>
     (case normalizeMoods (opt_get reqbody ''moods'') 20 of
        Inl e \<Rightarrow> ([], Inl e)
      | Inr moods \<Rightarrow>
     (let stats = js_or (opt_get reqbody ''stats'') JNull in
     if length entries = 0 \<and> length moods = 0 \<and> \<not> truthy stats
     then ([], Inr \<lparr> status = 400,
                     body = JObj [(''error'', JStr ''Provide entries, moods, or stats for the summary.'')] \<rparr>)
     else
     (case runJsonChat env
             ''Create an uplifting weekly executive summary of the user's emotional wellbeing. Respond with JSON keys: overview, wins (array), growth_edges (array), focus_theme, encouragement.''
             (JObj [(''entries'', JArr entries), (''moods'', JArr moods), (''stats'', stats)])
             \<lparr> maxTokens = Some 420, j_temperature = None \<rparr> of
        (sent, Inr (json, usage)) \<Rightarrow>
          (sent, Inr \<lparr> status = 200, body = JObj [(''summary'', json), (''usage'', usage)] \<rparr>)
      | (sent, Inl err) \<Rightarrow>
          (sent, Inr (catch_response err ''Unable to fetch AI summary'')))))))"

text \<open>
  In the goals handler \<open>json.reflections\<close> is read without \<open>?.\<close>: it throws inside the
  \<open>try\<close> when the model's reply parses to \<open>null\<close>, and the \<open>catch\<close> takes it.
\<close>

definition ai_goals :: "env \<Rightarrow> jsval \<Rightarrow> response io" where
  "ai_goals env reqbody =
     (case ensureOpenAi env of
        Some r \<Rightarrow> ([], Inr r)
      | None \<Rightarrow>
     (case sequence (map (\<lambda>goal. sanitize goal 160) (clipCollection (opt_get reqbody ''goals'') 10)) of
        Inl e \<Rightarrow> ([], Inl e)
      | Inr sanitized \<Rightarrow>
     (let goals = filter (\<lambda>g. g \<noteq> []) sanitized in
     (case sanitize (opt_get reqbody ''entry'') 400 of
        Inl e \<Rightarrow> ([], Inl e)
      | Inr entry \<Rightarrow>
     if length goals = 0
     then ([], Inr \<lparr> status = 400, body = JObj [(''error'', JStr ''Provide at least one goal.'')] \<rparr>)
     else
     (case runJsonChat env
             ''Relate the gratitude reflection to the user's life goals. Return JSON { reflections: [{ goal, insight, micro_action }] }.''
             (JObj [(''goals'', JArr (map JStr goals)), (''entry'', JStr entry)])
             \<lparr> maxTokens = Some 400, j_temperature = None \<rparr> of
        (sent, Inr (json, usage)) \<Rightarrow>
          (case get json ''reflections'' of
             Inr reflections \<Rightarrow>
               (sent, Inr \<lparr> status = 200,
                              body = JObj [(''reflections'', js_or reflections (JArr [])), (''usage'', usage)] \<rparr>)
           | Inl err \<Rightarrow> (sent, Inr (catch_response err ''Unable to fetch goal reflections'')))
      | (sent, Inl err) \<Rightarrow>
          (sent, Inr (catch_response err ''Unable to fetch goal reflections'')))))))"

definition ai_anomaly :: "env \<Rightarrow> jsval \<Rightarrow> response io" where
  "ai_anomaly env reqbody =
     (case ensureOpenAi env of
        Some r \<Rightarrow> ([], Inr r)
      | None \<Rightarrow>
     (case normalizeEntries (opt_get reqbody ''entries'') 30 of
        Inl e \<Rightarrow> ([], Inl e)
      | Inr entries \<Rightarrow>
     (case normalizeMoods (opt_get reqbody ''moods'') 30 of
        Inl e \<Rightarrow> ([], Inl e)
      | Inr moods \<Rightarrow>
     if length entries = 0 \<and> length moods = 0
     then ([], Inr \<lparr> status = 400,
                     body = JObj [(''error'', JStr ''Provide recent entries or moods for analysis.'')] \<rparr>)
     else
     (case runJsonChat env
             ''Detect emotional anomalies or mental health risks. Return JSON { risk_level, alerts: [string], recommendation }.''
             (JObj [(''entries'', JArr entries), (''moods'', JArr moods)])
             \<lparr> maxTokens = Some 320, j_temperature = None \<rparr> of
        (sent, Inr (json, usage)) \<Rightarrow>
          (sent, Inr \<lparr> status = 200, body = JObj [(''anomaly'', json), (''usage'', usage)] \<rparr>)
      | (sent, Inl err) \<Rightarrow>
          (sent, Inr (catch_response err ''Unable to run anomaly detection''))))))"

definition ai_pattern :: "env \<Rightarrow> jsval \<Rightarrow> response io" where
  "ai_pattern env reqbody =
     (case ensureOpenAi env of
        Some r \<Rightarrow> ([], Inr r)
      | None \<Rightarrow>
     (case normalizeEntries (opt_get reqbody ''entries'') 40 of
        Inl e \<Rightarrow> ([], Inl e)
      | Inr entries \<Rightarrow>
     if length entries = 0
     then ([], Inr \<lparr> status = 400,
                     body = JObj [(''error'', JStr ''Provide entries to map life patterns.'')] \<rparr>)
     else
     (case runJsonChat env
             ''Analyse gratitude entries to build a life pattern map. Return JSON { themes: [string], triggers: [string], supportive_habits: [string] }.''
             (JObj [(''entries'', JArr entries)])
             \<lparr> maxTokens = Some 380, j_temperature = None \<rparr> of
        (sent, Inr (json, usage)) \<Rightarrow>
          (sent, Inr \<lparr> status = 200, body = JObj [(''pattern'', json), (''usage'', usage)] \<rparr>)
      | (sent, Inl err) \<Rightarrow>
          (sent, Inr (catch_response err ''Unable to map patterns'')))))"

text \<open>
  \<^verbatim>\<open>
  const note = sanitize(req.body?.voice_note, 1800) ||
               sanitize(req.body?.voice_note_text, 1800) ||
               sanitize(req.body?.note, 1800);
  \<close>
  A later alternative is evaluated only when the earlier ones are empty.
\<close>

definition transcript_note :: "jsval \<Rightarrow> js_exn + string" where
  "transcript_note reqbody =
     (case sanitize (opt_get reqbody ''voice_note'') 1800 of
        Inl e \<Rightarrow> Inl e
      | Inr a \<Rightarrow>
          if a \<noteq> [] then Inr a
          else (case sanitize (opt_get reqbody ''voice_note_text'') 1800 of
                  Inl e \<Rightarrow> Inl e
                | Inr b \<Rightarrow> if b \<noteq> [] then Inr b else sanitize (opt_get reqbody ''note'') 1800))"

definition ai_transcript :: "env \<Rightarrow> jsval \<Rightarrow> response io" where
  "ai_transcript env reqbody =
     (case ensureOpenAi env of
        Some r \<Rightarrow> ([], Inr r)
      | None \<Rightarrow>
     (case transcript_note reqbody of
        Inl e \<Rightarrow> ([], Inl e)
      | Inr note \<Rightarrow>
     if note = []
     then ([], Inr \<lparr> status = 400,
                     body = JObj [(''error'', JStr ''Provide a voice note snippet to transcribe.'')] \<rparr>)
     else
     (case runJsonChat env
             ''You clean up raw voice note text into a polished transcript. Return JSON { transcript, emotions: [string], highlights: [string], action_item }.''
             (JStr note)
             \<lparr> maxTokens = Some 320, j_temperature = None \<rparr> of
        (sent, Inr (json, usage)) \<Rightarrow>
          (sent, Inr \<lparr> status = 200, body = JObj [(''transcript'', json), (''usage'', usage)] \<rparr>)
      | (sent, Inl err) \<Rightarrow>
          (sent, Inr (catch_response err ''Unable to transcribe note'')))))"

definition ai_partner :: "env \<Rightarrow> jsval \<Rightarrow> response io" where
  "ai_partner env reqbody =
     (case ensureOpenAi env of
        Some r \<Rightarrow> ([], Inr r)
      | None \<Rightarrow>
     (let insights = js_or (opt_get reqbody ''insights'') JNull;
          summary = js_or (opt_get reqbody ''summary'') JNull
      in
     (case sanitize (js_or (opt_get reqbody ''audience'') (JStr ''partner'')) 40 of
        Inl e \<Rightarrow> ([], Inl e)
      | Inr audience \<Rightarrow>
     if \<not> truthy insights \<and> \<not> truthy summary
     then ([], Inr \<lparr> status = 400,
                     body = JObj [(''error'', JStr ''Provide insights or a summary to craft a partner update.'')] \<rparr>)
     else
     (case runJsonChat env
             ''Create a short, caring update that shares emotional status with a loved one without revealing raw journal text. Return JSON { message }.''
             (JObj [(''insights'', insights), (''summary'', summary), (''audience'', JStr audience)])
             \<lparr> maxTokens = Some 220, j_temperature = None \<rparr> of
        (sent, Inr (json, usage)) \<Rightarrow>
          (sent, Inr \<lparr> status = 200, body = JObj [(''share'', json), (''usage'', usage)] \<rparr>)
      | (sent, Inl err) \<Rightarrow>
          (sent, Inr (catch_response err ''Unable to craft partner update''))))))"

text \<open>
  The loop of the chat handler over the conversation history:
  \<^verbatim>\<open>
  history.forEach((msg) => {
    const role = msg.role === "assistant" ? "assistant" : "user";
    const content = sanitize(msg.content || msg.text || "", 1200);
    if (content) { messages.push({ role, content }); }
  });
  \<close>
  \<open>msg.role\<close> throws on a \<open>null\<close> element; after it, \<open>msg\<close> is known not to be
  nullish and the two later reads cannot throw.
\<close>

fun push_history :: "jsval list \<Rightarrow> chat_message list \<Rightarrow> js_exn + chat_message list" where
  "push_history [] msgs = Inr msgs"
| "push_history (msg # rest) msgs =
     (case get msg ''role'' of
        Inl e \<Rightarrow> Inl e
      | Inr r \<Rightarrow>
          (case sanitize (js_or (js_or (own_prop msg ''content'') (own_prop msg ''text'')) (JStr [])) 1200 of
             Inl e \<Rightarrow> Inl e
           | Inr c \<Rightarrow>
               push_history rest
                 (if c \<noteq> []
                  then msgs @ [\<lparr> role = (if r = JStr ''assistant'' then ''assistant'' else ''user''), content = c \<rparr>]
                  else msgs)))"

definition chat_system_message :: chat_message where
  "chat_system_message =
     \<lparr> role = ''system'',
       content = ''You are a therapist-style AI mentor. Be empathetic, concise, and focus on actionable grounding techniques. Keep replies under 180 words.'' \<rparr>"

definition ai_chat :: "env \<Rightarrow> jsval \<Rightarrow> response io" where
  "ai_chat env reqbody =
     (case ensureOpenAi env of
        Some r \<Rightarrow> ([], Inr r)
      | None \<Rightarrow>
     (let history = (case opt_get reqbody ''conversation'' of JArr h \<Rightarrow> h | _ \<Rightarrow> []) in
     (case sanitize (opt_get reqbody ''topic'') 120 of
        Inl e \<Rightarrow> ([], Inl e)
      | Inr t \<Rightarrow>
     (let topic = str_or t ''overall wellbeing'' in
     (case (if length history \<noteq> 0
            then push_history history [chat_system_message]
            else Inr [chat_system_message,
                      \<lparr> role = ''user'', content = ''I'd like to talk about '' @ topic @ ''.'' \<rparr>]) of
        Inl e \<Rightarrow> ([], Inl e)
      | Inr msgs \<Rightarrow>
     (case runChat env msgs
             \<lparr> o_max_tokens = Some 360, o_temperature = Some (7 / 10), o_response_format = None \<rparr> of
        (sent, Inr resp) \<Rightarrow>
          (case trimmed_reply resp of
             Inr reply \<Rightarrow>
               (sent, Inr \<lparr> status = 200,
                              body = JObj [(''reply'', js_or reply (JStr ''Take a calming breath and notice one thing you appreciate in this moment.'')),
                                           (''usage'', js_or (own_prop (JObj resp) ''usage'') JNull)] \<rparr>)
           | Inl err \<Rightarrow> (sent, Inr (catch_response err ''Unable to continue the mentor chat'')))
      | (sent, Inl err) \<Rightarrow>
          (sent, Inr (catch_response err ''Unable to continue the mentor chat''))))))))"

text \<open>The nine AI routes and their handlers.\<close>

datatype operation =
    Insights | Prompt | Summary | Goals | Anomaly | Pattern | Transcript | Partner | Chat

fun handle :: "operation \<Rightarrow> env \<Rightarrow> jsval \<Rightarrow> response io" where
  "handle Insights = ai_insights"
| "handle Prompt = ai_prompt"
| "handle Summary = ai_summary"
| "handle Goals = ai_goals"
| "handle Anomaly = ai_anomaly"
| "handle Pattern = ai_pattern"
| "handle Transcript = ai_transcript"
| "handle Partner = ai_partner"
| "handle Chat = ai_chat"

section \<open>Tables, predicates and sample configurations\<close>


text \<open>The message of each handler's 400 response; the prompt and chat handlers have none.\<close>

fun validation_error :: "operation \<Rightarrow> string" where
  "validation_error Insights = ''Provide at least an entry, mood, or stats snapshot.''"
| "validation_error Summary = ''Provide entries, moods, or stats for the summary.''"
| "validation_error Goals = ''Provide at least one goal.''"
| "validation_error Anomaly = ''Provide recent entries or moods for analysis.''"
| "validation_error Pattern = ''Provide entries to map life patterns.''"
| "validation_error Transcript = ''Provide a voice note snippet to transcribe.''"
| "validation_error Partner = ''Provide insights or a summary to craft a partner update.''"
| "validation_error Prompt = []"
| "validation_error Chat = []"

text \<open>The key under which a JSON-mode handler returns the parsed reply.\<close>

fun envelope_key :: "operation \<Rightarrow> string" where
  "envelope_key Insights = ''insights''"
| "envelope_key Summary = ''summary''"
| "envelope_key Anomaly = ''anomaly''"
| "envelope_key Pattern = ''pattern''"
| "envelope_key Transcript = ''transcript''"
| "envelope_key Partner = ''share''"
| "envelope_key Goals = ''reflections''"
| "envelope_key Prompt = ''prompt''"
| "envelope_key Chat = ''reply''"

text \<open>
  The required-input checks, in the words of the specification: a value \<open>has_text\<close> when
  it sanitizes to a non-empty string, and a collection has \<open>no_items\<close> when it is not a
  non-empty array.
\<close>

definition has_text :: "jsval \<Rightarrow> nat \<Rightarrow> bool" where
  "has_text v m = (case sanitize v m of Inr s \<Rightarrow> s \<noteq> [] | Inl e \<Rightarrow> False)"

definition no_items :: "jsval \<Rightarrow> bool" where
  "no_items v = (case v of JArr xs \<Rightarrow> xs = [] | _ \<Rightarrow> True)"

fun fails_required_input :: "operation \<Rightarrow> jsval \<Rightarrow> bool" where
  "fails_required_input Insights b =
     (\<not> has_text (opt_get b ''entry'') 800 \<and> \<not> truthy (opt_get b ''mood'') \<and> \<not> truthy (opt_get b ''stats''))"
| "fails_required_input Summary b =
     (no_items (opt_get b ''entries'') \<and> no_items (opt_get b ''moods'') \<and> \<not> truthy (opt_get b ''stats''))"
| "fails_required_input Goals b =
     (case opt_get b ''goals'' of JArr gs \<Rightarrow> list_all (\<lambda>g. \<not> has_text g 160) gs | _ \<Rightarrow> True)"
| "fails_required_input Anomaly b = (no_items (opt_get b ''entries'') \<and> no_items (opt_get b ''moods''))"
| "fails_required_input Pattern b = no_items (opt_get b ''entries'')"
| "fails_required_input Transcript b =
     (\<not> has_text (opt_get b ''voice_note'') 1800 \<and> \<not> has_text (opt_get b ''voice_note_text'') 1800 \<and>
      \<not> has_text (opt_get b ''note'') 1800)"
| "fails_required_input Partner b = (\<not> truthy (opt_get b ''insights'') \<and> \<not> truthy (opt_get b ''summary''))"
| "fails_required_input Prompt b = False"
| "fails_required_input Chat b = False"

text \<open>
  A value is \<open>plain\<close> when no object in it has a property named \<open>toString\<close>: such a
  value and everything in it has a string form.
\<close>

fun plain :: "jsval \<Rightarrow> bool" where
  "plain (JArr xs) = list_all plain xs"
| "plain (JObj ps) = (''toString'' \<notin> set (map fst ps) \<and> list_all (\<lambda>p. plain (snd p)) ps)"
| "plain v = True"

text \<open>A normalized record is \<open>uncut\<close> when none of its text fields ends in white space.\<close>

definition ends_in_ws :: "string \<Rightarrow> bool" where
  "ends_in_ws s = (s \<noteq> [] \<and> is_ws (last s))"

definition str_field :: "jsval \<Rightarrow> string \<Rightarrow> string" where
  "str_field v k = (case own_prop v k of JStr t \<Rightarrow> t | _ \<Rightarrow> [])"

definition uncut :: "jsval \<Rightarrow> bool" where
  "uncut y = (\<not> ends_in_ws (str_field y ''text'') \<and> \<not> ends_in_ws (str_field y ''mood'') \<and>
              \<not> ends_in_ws (str_field y ''note''))"

text \<open>
  What the chat endpoint forwards of one history element, in the words of the
  specification: nothing when its sanitized content is empty, else one message whose role
  is \<open>assistant\<close> only for the exact role \<open>"assistant"\<close>.
\<close>

definition forward_message :: "jsval \<Rightarrow> chat_message list" where
  "forward_message msg =
     (case sanitize (js_or (js_or (own_prop msg ''content'') (own_prop msg ''text'')) (JStr [])) 1200 of
        Inr c \<Rightarrow>
          if c = [] then []
          else [\<lparr> role = (if own_prop msg ''role'' = JStr ''assistant'' then ''assistant'' else ''user''),
                  content = c \<rparr>]
      | Inl e \<Rightarrow> [])"

text \<open>
  The text of a value that is a string, and the object a JSON-mode handler gets from a
  completion: the parsed content, or the empty object.
\<close>

definition text_of :: "jsval \<Rightarrow> string" where
  "text_of v = (case v of JStr s \<Rightarrow> s | _ \<Rightarrow> [])"

definition parsed_reply :: "env \<Rightarrow> (string \<times> jsval) list \<Rightarrow> jsval" where
  "parsed_reply env resp =
     safeJsonParse (JSON_parse env) (js_or (reply_content resp) (JStr ''{}'')) (JObj [])"

text \<open>
  Sample configurations. \<open>sample_parse\<close> agrees with \<open>JSON.parse\<close> on the two texts it
  knows and rejects every other text; \<open>completion\<close> is a completion object with one choice.
  The serialiser of \<open>sample_env\<close> is a stub: no sample looks at the text of a payload.
\<close>

definition sample_parse :: "string \<Rightarrow> jsval option" where
  "sample_parse t = (if t = ''{}'' then Some (JObj []) else if t = ''null'' then Some JNull else None)"

definition completion :: "jsval \<Rightarrow> (string \<times> jsval) list" where
  "completion c = [(''choices'', JArr [JObj [(''message'', JObj [(''role'', JStr ''assistant''), (''content'', c)])]])]"

definition sample_env :: "(chat_request \<Rightarrow> js_exn + (string \<times> jsval) list) option \<Rightarrow> env" where
  "sample_env client =
     \<lparr> openAiClient = client, OPENAI_MODEL = ''gpt-4o-mini'',
       JSON_parse = sample_parse, JSON_stringify = (\<lambda>v. ''{}'') \<rparr>"

section \<open>Properties\<close>

subsection \<open>Trimming and sequencing\<close>

lemma trim_decomp:
  "dropWhile is_ws s = trim s @ rev (takeWhile is_ws (rev (dropWhile is_ws s)))"
proof -
  let ?a = "dropWhile is_ws s"
  have "dropWhile is_ws s = rev (takeWhile is_ws (rev ?a) @ dropWhile is_ws (rev ?a))"
    by (simp only: takeWhile_dropWhile_id rev_rev_ident)
  then show ?thesis
    by (simp only: rev_append trim_def)
qed

lemma trim_hd: "trim s \<noteq> [] \<Longrightarrow> \<not> is_ws (hd (trim s))"
proof -
  assume ne: "trim s \<noteq> []"
  have d: "dropWhile is_ws s = trim s @ rev (takeWhile is_ws (rev (dropWhile is_ws s)))"
    by (rule trim_decomp)
  from ne d have "dropWhile is_ws s \<noteq> []"
    by (metis append_is_Nil_conv)
  then have "\<not> is_ws (hd (dropWhile is_ws s))"
    by (rule hd_dropWhile)
  moreover from ne d have "hd (dropWhile is_ws s) = hd (trim s)"
    by (metis hd_append2)
  ultimately show ?thesis by simp
qed

lemma trim_last: "trim s \<noteq> [] \<Longrightarrow> \<not> is_ws (last (trim s))"
proof -
  assume ne: "trim s \<noteq> []"
  then have n2: "dropWhile is_ws (rev (dropWhile is_ws s)) \<noteq> []"
    by (simp add: trim_def)
  then have "\<not> is_ws (hd (dropWhile is_ws (rev (dropWhile is_ws s))))"
    by (rule hd_dropWhile)
  with n2 show ?thesis
    by (simp add: trim_def last_rev)
qed

lemma trim_fixed:
  assumes "s \<noteq> [] \<Longrightarrow> \<not> is_ws (hd s)" and "s \<noteq> [] \<Longrightarrow> \<not> is_ws (last s)"
  shows "trim s = s"
proof (cases "s = []")
  case True
  then show ?thesis by (simp add: trim_def)
next
  case False
  with assms have h: "\<not> is_ws (hd s)" and l: "\<not> is_ws (last s)" by simp_all
  from False h have a: "dropWhile is_ws s = s"
    by (cases s) simp_all
  from False l have "\<not> is_ws (hd (rev s))"
    by (simp add: hd_rev)
  with False have "dropWhile is_ws (rev s) = rev s"
    by (cases "rev s") simp_all
  with a show ?thesis by (simp add: trim_def)
qed

lemma trim_trim: "trim (trim s) = trim s"
  by (rule trim_fixed) (simp_all add: trim_hd trim_last)

lemma length_trim: "length (trim s) \<le> length s"
proof -
  have "length (trim s) \<le> length (dropWhile is_ws s)"
    using length_dropWhile_le [of is_ws "rev (dropWhile is_ws s)"] by (simp add: trim_def)
  also have "\<dots> \<le> length s" by (rule length_dropWhile_le)
  finally show ?thesis .
qed

lemma sequence_Inr_iff: "sequence rs = Inr xs \<longleftrightarrow> rs = map Inr xs"
proof (induction rs arbitrary: xs)
  case Nil
  show ?case by auto
next
  case (Cons r rs)
  show ?case
  proof (cases r)
    case (Inl e)
    then show ?thesis by (cases xs) auto
  next
    case (Inr x)
    then show ?thesis using Cons.IH
      by (cases xs; cases "sequence rs") auto
  qed
qed

subsection \<open>Plain values have a string form\<close>

lemma sequence_all_Inr:
  "(\<And>r. r \<in> set rs \<Longrightarrow> \<exists>x. r = Inr x) \<Longrightarrow> \<exists>xs. sequence rs = Inr xs"
proof (induction rs)
  case Nil
  then show ?case by simp
next
  case (Cons r rs)
  then obtain x where "r = Inr x" by auto
  moreover from Cons obtain xs where "sequence rs = Inr xs" by auto
  ultimately show ?case by simp
qed

lemma plain_toStr: "plain v \<Longrightarrow> \<exists>s. toStr v = Inr s"
proof (induction v)
  case (JArr xs)
  have "\<exists>ss. sequence (map (\<lambda>x. if nullish x then Inr [] else toStr x) xs) = Inr ss"
  proof (rule sequence_all_Inr)
    fix r assume "r \<in> set (map (\<lambda>x. if nullish x then Inr [] else toStr x) xs)"
    then obtain x where x: "x \<in> set xs" and r: "r = (if nullish x then Inr [] else toStr x)"
      by auto
    from x JArr.prems have "plain x" by (simp add: list_all_iff)
    with JArr.IH x obtain s where "toStr x = Inr s" by blast
    with r show "\<exists>s. r = Inr s" by simp
  qed
  then show ?case by auto
qed simp_all

lemma plain_sanitize: "plain v \<Longrightarrow> \<exists>s. sanitize v n = Inr s"
  using plain_toStr [of v] by (auto simp: sanitize_def)

lemma plain_own_prop: "plain v \<Longrightarrow> plain (own_prop v k)"
proof (cases v)
  case (JObj ps)
  assume "plain v"
  with JObj have a: "list_all (\<lambda>p. plain (snd p)) ps" by simp
  have "plain x" if "map_of ps k = Some x" for x
  proof -
    from that have "(k, x) \<in> set ps" by (rule map_of_SomeD)
    with a have "plain (snd (k, x))" unfolding list_all_iff by (rule bspec)
    then show ?thesis by simp
  qed
  with JObj show ?thesis by (auto split: option.splits)
qed simp_all

lemma plain_opt_get: "plain v \<Longrightarrow> plain (opt_get v k)"
  by (simp add: opt_get_def plain_own_prop)

lemma plain_js_or: "plain a \<Longrightarrow> plain b \<Longrightarrow> plain (js_or a b)"
  by (simp add: js_or_def)

lemma plain_sanitize_all:
  "list_all plain gs \<Longrightarrow> \<exists>ss. sequence (map (\<lambda>g. sanitize g m) gs) = Inr ss"
  by (rule sequence_all_Inr) (auto simp: list_all_iff dest: plain_sanitize)

lemma plain_clip: "plain v \<Longrightarrow> list_all plain (clipCollection v n)"
  by (cases v) (auto simp: clipCollection_def list_all_iff dest: in_set_takeD)

subsection \<open>sanitize\<close>

text \<open>
  C6, amended. \<open>sanitize\<close> returns the empty string for \<open>null\<close> and \<open>undefined\<close>. It
  does not throw on a string, nor on any other plain value. For every value whose string
  form exists it returns the first \<open>n\<close> code units of the trimmed string form: the result has
  length at most \<open>n\<close> and no leading white space, and it has no trailing white space when
  the trimmed form has at most \<open>n\<close> code units (a cut can end on white space).
\<close>

theorem sanitize_bounded:
  "(nullish v \<longrightarrow> sanitize v n = Inr []) \<and>
   sanitize (JStr t) n = Inr (take n (trim t)) \<and>
   (plain v \<longrightarrow> (\<exists>r. sanitize v n = Inr r)) \<and>
   (\<not> nullish v \<longrightarrow> toStr v = Inr s \<longrightarrow>
      sanitize v n = Inr (take n (trim s)) \<and>
      length (take n (trim s)) \<le> n \<and>
      (take n (trim s) \<noteq> [] \<longrightarrow> \<not> is_ws (hd (take n (trim s)))) \<and>
      (length (trim s) \<le> n \<longrightarrow> take n (trim s) \<noteq> [] \<longrightarrow> \<not> is_ws (last (take n (trim s)))))"
proof -
  have a: "nullish v \<longrightarrow> sanitize v n = Inr []"
    by (cases v) (simp_all add: sanitize_def)
  have b: "sanitize (JStr t) n = Inr (take n (trim t))"
    by (simp add: sanitize_def)
  have c: "\<not> nullish v \<longrightarrow> toStr v = Inr s \<longrightarrow> sanitize v n = Inr (take n (trim s))"
    by (cases v) (simp_all add: sanitize_def)
  have d: "take n (trim s) \<noteq> [] \<longrightarrow> \<not> is_ws (hd (take n (trim s)))"
  proof
    assume ne: "take n (trim s) \<noteq> []"
    then have "trim s \<noteq> []" and "n \<noteq> 0" by auto
    then show "\<not> is_ws (hd (take n (trim s)))"
      using trim_hd [of s] by simp
  qed
  have e: "length (trim s) \<le> n \<longrightarrow> take n (trim s) \<noteq> [] \<longrightarrow> \<not> is_ws (last (take n (trim s)))"
    using trim_last [of s] by simp
  have f: "plain v \<longrightarrow> (\<exists>r. sanitize v n = Inr r)"
    using plain_sanitize [of v n] by blast
  from a b c d e f show ?thesis by simp
qed

text \<open>The theorem at \<open>null\<close> and at the number \<open>-42\<close> with cap 2.\<close>

theorem sanitize_bounded_witness:
  "nullish JNull \<and> sanitize JNull 2 = Inr [] \<and>
   \<not> nullish (JNum (- 42)) \<and> toStr (JNum (- 42)) = Inr ''-42'' \<and>
   sanitize (JNum (- 42)) 2 = Inr ''-4'' \<and> \<not> is_ws (hd ''-4'')"
  using sanitize_bounded [of JNull 2 "[]" "[]"] sanitize_bounded [of "JNum (- 42)" 2 "[]" "''-42''"]
  by (auto simp: show_int_def digit_char_def trim_def is_ws_def)

text \<open>
  C6 as stated fails: the cut comes after the trimming, so \<open>sanitize("a b", 2)\<close> is
  \<open>"a "\<close>, which ends in a space; and an object with an own \<open>toString\<close> property has no
  string form, so \<open>sanitize\<close> throws on it.
\<close>

theorem sanitize_counterexample:
  "sanitize (JStr ''a b'') 2 = Inr ''a '' \<and> is_ws (last ''a '') \<and>
   sanitize (JObj [(''toString'', JNum 1)]) 800 =
     Inl (TypeError ''Cannot convert object to primitive value'')"
  by (simp add: sanitize_def trim_def is_ws_def)

subsection \<open>safeJsonParse\<close>

text \<open>
  C7. \<open>safeJsonParse\<close> never raises: on a text that \<open>JSON.parse\<close> accepts it is the
  parsed value, on any other text it is the fallback; and on an argument of any kind the
  result is the fallback or the value parsed from the argument's string form.
\<close>

theorem safeJsonParse_total:
  "(parse t = Some v \<longrightarrow> safeJsonParse parse (JStr t) fallback = v) \<and>
   (parse t = None \<longrightarrow> safeJsonParse parse (JStr t) fallback = fallback) \<and>
   (safeJsonParse parse raw fallback = fallback \<or>
    (\<exists>u. toStr raw = Inr u \<and> parse u = Some (safeJsonParse parse raw fallback)))"
  by (auto simp: safeJsonParse_def split: sum.splits option.splits)

text \<open>The theorem on the text \<open>null\<close>, which parses, and on a text that does not.\<close>

theorem safeJsonParse_total_witness:
  "sample_parse ''null'' = Some JNull \<and> safeJsonParse sample_parse (JStr ''null'') (JObj []) = JNull \<and>
   sample_parse ''{oops'' = None \<and> safeJsonParse sample_parse (JStr ''{oops'') (JObj []) = JObj []"
  using safeJsonParse_total [of sample_parse "''null''" JNull "JObj []" JUndef]
        safeJsonParse_total [of sample_parse "''{oops''" JNull "JObj []" JUndef]
  by (simp add: sample_parse_def)

subsection \<open>The availability guard\<close>

lemma ensure_None: "openAiClient env = None \<Longrightarrow>
  ensureOpenAi env = Some \<lparr> status = 503, body = JObj [(''ok'', JBool False), (''error'', JStr config_error)] \<rparr>"
  by (simp add: ensureOpenAi_def)

lemma ensure_Some: "openAiClient env = Some create \<Longrightarrow> ensureOpenAi env = None"
  by (simp add: ensureOpenAi_def)

text \<open>
  C1. When no API key was supplied, every AI handler answers 503 with the fixed body,
  whatever the request body, and sends nothing to the LLM; \<open>runChat\<close> itself fails with
  the same configuration error and sends nothing.
\<close>

theorem guard_unconfigured:
  assumes "openAiClient env = None"
  shows "handle op env reqbody =
           ([], Inr \<lparr> status = 503,
                       body = JObj [(''ok'', JBool False),
                                    (''error'', JStr ''OPENAI_API_KEY is not configured on the API gateway'')] \<rparr>) \<and>
         runChat env msgs options = ([], Inl (Error ''OPENAI_API_KEY is not configured on the API gateway''))"
proof -
  have "handle op env reqbody =
          ([], Inr \<lparr> status = 503, body = JObj [(''ok'', JBool False), (''error'', JStr config_error)] \<rparr>)"
    using ensure_None [OF assms]
    by (cases op)
       (simp_all add: ai_insights_def ai_prompt_def ai_summary_def ai_goals_def ai_anomaly_def
          ai_pattern_def ai_transcript_def ai_partner_def ai_chat_def)
  moreover have "runChat env msgs options = ([], Inl (Error config_error))"
    using assms by (simp add: runChat_def)
  ultimately show ?thesis by (simp add: config_error_def)
qed

text \<open>The theorem for the chat route of an unconfigured gateway.\<close>

theorem guard_unconfigured_witness:
  "openAiClient (sample_env None) = None \<and>
   handle Chat (sample_env None) (JObj [(''topic'', JStr ''sleep'')]) =
     ([], Inr \<lparr> status = 503,
                 body = JObj [(''ok'', JBool False),
                              (''error'', JStr ''OPENAI_API_KEY is not configured on the API gateway'')] \<rparr>)"
  using guard_unconfigured [of "sample_env None" Chat "JObj [(''topic'', JStr ''sleep'')]" "[]" "\<lparr> o_max_tokens = None, o_temperature = None, o_response_format = None \<rparr>"]
  by (simp add: sample_env_def)

subsection \<open>The invokers under a configured client\<close>

lemma runChat_configured:
  assumes "openAiClient env = Some create" and "runChat env msgs options = (sent, res)"
  shows "\<exists>req. sent = [req] \<and> res = create req \<and> messages req = msgs \<and>
               response_format req = o_response_format options"
  using assms by (auto simp: runChat_def Let_def)

lemma runJsonChat_configured:
  assumes "openAiClient env = Some create" and "runJsonChat env sp up opts = (sent, res)"
  shows "\<exists>req. sent = [req] \<and>
           messages req = [\<lparr> role = ''system'', content = sp \<rparr>,
                           \<lparr> role = ''user'', content = (case up of JStr s \<Rightarrow> s | _ \<Rightarrow> JSON_stringify env up) \<rparr>] \<and>
           response_format req = Some ''json_object'' \<and>
           (case create req of
              Inl e \<Rightarrow> res = Inl e
            | Inr resp \<Rightarrow>
                res = Inr (safeJsonParse (JSON_parse env) (js_or (reply_content resp) (JStr ''{}'')) (JObj []),
                           js_or (own_prop (JObj resp) ''usage'') JNull))"
proof -
  obtain s1 r1 where rc: "runChat env
             [ \<lparr> role = ''system'', content = sp \<rparr>,
               \<lparr> role = ''user'', content = (case up of JStr s \<Rightarrow> s | _ \<Rightarrow> JSON_stringify env up) \<rparr> ]
             \<lparr> o_max_tokens =
                 Some (case maxTokens opts of None \<Rightarrow> 400 | Some n \<Rightarrow> if n = 0 then 400 else n),
               o_temperature =
                 Some (case j_temperature opts of None \<Rightarrow> 4 / 10 | Some t \<Rightarrow> t),
               o_response_format = Some ''json_object'' \<rparr> = (s1, r1)"
    by (cases "runChat env
             [ \<lparr> role = ''system'', content = sp \<rparr>,
               \<lparr> role = ''user'', content = (case up of JStr s \<Rightarrow> s | _ \<Rightarrow> JSON_stringify env up) \<rparr> ]
             \<lparr> o_max_tokens =
                 Some (case maxTokens opts of None \<Rightarrow> 400 | Some n \<Rightarrow> if n = 0 then 400 else n),
               o_temperature =
                 Some (case j_temperature opts of None \<Rightarrow> 4 / 10 | Some t \<Rightarrow> t),
               o_response_format = Some ''json_object'' \<rparr>") 
  from runChat_configured [OF assms(1) rc] obtain req where
    q: "s1 = [req]" "r1 = create req" "messages req = [ \<lparr> role = ''system'', content = sp \<rparr>,
               \<lparr> role = ''user'', content = (case up of JStr s \<Rightarrow> s | _ \<Rightarrow> JSON_stringify env up) \<rparr> ]"
       "response_format req = Some ''json_object''"
    by auto
  from assms(2) rc have "(sent, res) = (case r1 of Inl e \<Rightarrow> (s1, Inl e) | Inr response \<Rightarrow>
          (s1, Inr (safeJsonParse (JSON_parse env) (js_or (reply_content response) (JStr ''{}'')) (JObj []),
                     js_or (own_prop (JObj response) ''usage'') JNull)))"
    by (simp add: runJsonChat_def split: sum.splits)
  with q show ?thesis
    by (cases "create req") auto
qed

subsection \<open>Upstream failures\<close>














subsection \<open>The JSON-mode invoker\<close>

text \<open>
  C4. \<open>runJsonChat\<close> sends one request, the system prompt and the payload, in JSON mode. A
  failure of the chat invoker (the configuration error, or the error the completion call
  fails with) is the failure of \<open>runJsonChat\<close>, unchanged. When the call succeeds the
  result is the pair of \<open>json\<close> and \<open>usage\<close>: \<open>usage\<close> is the reply's \<open>usage\<close> or \<open>null\<close>;
  \<open>json\<close> is the parsed reply content when \<open>JSON.parse\<close> accepts it and the empty object
  when it does not, also when the reply has no content (\<open>JSON.parse\<close> reads \<open>{}\<close> as the
  empty object).
\<close>

theorem runJsonChat_result:
  "(openAiClient env = None \<longrightarrow>
      runJsonChat env systemPrompt userPayload options = ([], Inl (Error config_error))) \<and>
   (openAiClient env = Some create \<longrightarrow>
      (\<exists>req. fst (runJsonChat env systemPrompt userPayload options) = [req] \<and>
         messages req =
           [\<lparr> role = ''system'', content = systemPrompt \<rparr>,
            \<lparr> role = ''user'',
              content = (case userPayload of JStr s \<Rightarrow> s | _ \<Rightarrow> JSON_stringify env userPayload) \<rparr>] \<and>
         response_format req = Some ''json_object'' \<and>
         (\<forall>e. create req = Inl e \<longrightarrow>
              snd (runJsonChat env systemPrompt userPayload options) = Inl e) \<and>
         (\<forall>resp. create req = Inr resp \<longrightarrow>
            (\<exists>json usage.
               snd (runJsonChat env systemPrompt userPayload options) = Inr (json, usage) \<and>
               usage = (if truthy (own_prop (JObj resp) ''usage'') then own_prop (JObj resp) ''usage'' else JNull) \<and>
               (\<forall>c v. reply_content resp = JStr c \<and> c \<noteq> [] \<and> JSON_parse env c = Some v \<longrightarrow> json = v) \<and>
               (\<forall>c. reply_content resp = JStr c \<and> c \<noteq> [] \<and> JSON_parse env c = None \<longrightarrow> json = JObj []) \<and>
               (\<not> truthy (reply_content resp) \<and> JSON_parse env ''{}'' = Some (JObj []) \<longrightarrow> json = JObj [])))))"
proof (intro conjI impI)
  assume "openAiClient env = None"
  then show "runJsonChat env systemPrompt userPayload options = ([], Inl (Error config_error))"
    by (simp add: runJsonChat_def runChat_def)
next
  assume c: "openAiClient env = Some create"
  obtain sent res where r: "runJsonChat env systemPrompt userPayload options = (sent, res)"
    by (cases "runJsonChat env systemPrompt userPayload options")
  from runJsonChat_configured [OF c r] obtain req where
    q: "sent = [req]"
       "messages req =
           [\<lparr> role = ''system'', content = systemPrompt \<rparr>,
            \<lparr> role = ''user'',
              content = (case userPayload of JStr s \<Rightarrow> s | _ \<Rightarrow> JSON_stringify env userPayload) \<rparr>]"
       "response_format req = Some ''json_object''"
       "(case create req of
              Inl e \<Rightarrow> res = Inl e
            | Inr resp \<Rightarrow>
                res = Inr (safeJsonParse (JSON_parse env) (js_or (reply_content resp) (JStr ''{}'')) (JObj []),
                           js_or (own_prop (JObj resp) ''usage'') JNull))"
    by blast
  have e: "\<forall>e. create req = Inl e \<longrightarrow> res = Inl e"
    using q(4) by auto
  have s: "\<forall>resp. create req = Inr resp \<longrightarrow>
            (\<exists>json usage. res = Inr (json, usage) \<and>
               usage = (if truthy (own_prop (JObj resp) ''usage'') then own_prop (JObj resp) ''usage'' else JNull) \<and>
               (\<forall>c v. reply_content resp = JStr c \<and> c \<noteq> [] \<and> JSON_parse env c = Some v \<longrightarrow> json = v) \<and>
               (\<forall>c. reply_content resp = JStr c \<and> c \<noteq> [] \<and> JSON_parse env c = None \<longrightarrow> json = JObj []) \<and>
               (\<not> truthy (reply_content resp) \<and> JSON_parse env ''{}'' = Some (JObj []) \<longrightarrow> json = JObj []))"
    using q(4) by (auto simp: js_or_def safeJsonParse_def)
  show "\<exists>req. fst (runJsonChat env systemPrompt userPayload options) = [req] \<and>
         messages req =
           [\<lparr> role = ''system'', content = systemPrompt \<rparr>,
            \<lparr> role = ''user'',
              content = (case userPayload of JStr s \<Rightarrow> s | _ \<Rightarrow> JSON_stringify env userPayload) \<rparr>] \<and>
         response_format req = Some ''json_object'' \<and>
         (\<forall>e. create req = Inl e \<longrightarrow>
              snd (runJsonChat env systemPrompt userPayload options) = Inl e) \<and>
         (\<forall>resp. create req = Inr resp \<longrightarrow>
            (\<exists>json usage.
               snd (runJsonChat env systemPrompt userPayload options) = Inr (json, usage) \<and>
               usage = (if truthy (own_prop (JObj resp) ''usage'') then own_prop (JObj resp) ''usage'' else JNull) \<and>
               (\<forall>c v. reply_content resp = JStr c \<and> c \<noteq> [] \<and> JSON_parse env c = Some v \<longrightarrow> json = v) \<and>
               (\<forall>c. reply_content resp = JStr c \<and> c \<noteq> [] \<and> JSON_parse env c = None \<longrightarrow> json = JObj []) \<and>
               (\<not> truthy (reply_content resp) \<and> JSON_parse env ''{}'' = Some (JObj []) \<longrightarrow> json = JObj [])))"
    using q(1,2,3) e s unfolding r by (intro exI [of _ req]) simp
qed

text \<open>The theorem for a client that replies \<open>null\<close>, and for an unconfigured gateway.\<close>

theorem runJsonChat_result_witness:
  "openAiClient (sample_env (Some (\<lambda>r. Inr (completion (JStr ''null''))))) = Some (\<lambda>r. Inr (completion (JStr ''null''))) \<and>
   reply_content (completion (JStr ''null'')) = JStr ''null'' \<and>
   JSON_parse (sample_env (Some (\<lambda>r. Inr (completion (JStr ''null''))))) ''null'' = Some JNull \<and>
   snd (runJsonChat (sample_env (Some (\<lambda>r. Inr (completion (JStr ''null''))))) ''Return JSON.'' (JStr ''note'')
          \<lparr> maxTokens = Some 320, j_temperature = None \<rparr>) = Inr (JNull, JNull) \<and>
   openAiClient (sample_env None) = None \<and>
   runJsonChat (sample_env None) ''Return JSON.'' (JStr ''note'') \<lparr> maxTokens = Some 320, j_temperature = None \<rparr>
     = ([], Inl (Error config_error))"
proof -
  let ?c = "\<lambda>r::chat_request. (Inr (completion (JStr ''null'')) :: js_exn + (string \<times> jsval) list)"
  let ?o = "\<lparr> maxTokens = Some 320, j_temperature = None \<rparr>"
  have c: "openAiClient (sample_env (Some ?c)) = Some ?c"
    by (simp add: sample_env_def)
  have rc: "reply_content (completion (JStr ''null'')) = JStr ''null''"
    by (simp add: reply_content_def completion_def opt_get_def)
  have p: "JSON_parse (sample_env (Some ?c)) ''null'' = Some JNull"
    by (simp add: sample_env_def sample_parse_def)
  have n: "openAiClient (sample_env None) = None"
    by (simp add: sample_env_def)
  from runJsonChat_result [of "sample_env (Some ?c)" "''Return JSON.''" "JStr ''note''" ?o ?c] c rc p
  have "snd (runJsonChat (sample_env (Some ?c)) ''Return JSON.'' (JStr ''note'') ?o) = Inr (JNull, JNull)"
    by (auto simp: completion_def)
  moreover from runJsonChat_result [of "sample_env None" "''Return JSON.''" "JStr ''note''" ?o ?c] n
  have "runJsonChat (sample_env None) ''Return JSON.'' (JStr ''note'') ?o = ([], Inl (Error config_error))"
    by simp
  ultimately show ?thesis using c rc p n by simp
qed

subsection \<open>Validation errors\<close>

lemma no_items_clip: "no_items v \<Longrightarrow> clipCollection v n = []"
  by (cases v) (simp_all add: no_items_def clipCollection_def)

lemma normalizeEntries_no_items: "no_items v \<Longrightarrow> normalizeEntries v n = Inr []"
  by (simp add: normalizeEntries_def no_items_clip)

lemma normalizeMoods_no_items: "no_items v \<Longrightarrow> normalizeMoods v n = Inr []"
  by (simp add: normalizeMoods_def no_items_clip)

lemma sanitized_all_empty:
  "sequence (map (\<lambda>g. sanitize g m) gs) = Inr ss \<Longrightarrow> list_all (\<lambda>g. \<not> has_text g m) gs
     \<Longrightarrow> filter (\<lambda>g. g \<noteq> []) ss = []"
proof (induction gs arbitrary: ss)
  case Nil
  then show ?case by simp
next
  case (Cons g gs)
  then show ?case
    by (auto simp: has_text_def split: sum.splits)
qed

lemma list_all_clip:
  "(case v of JArr gs \<Rightarrow> list_all P gs | _ \<Rightarrow> True) \<Longrightarrow> list_all P (clipCollection v n)"
  by (cases v) (auto simp: clipCollection_def list_all_iff dest: in_set_takeD)

lemma insights_validation:
  assumes "openAiClient env = Some create" and "fails_required_input Insights b"
  shows "fst (ai_insights env b) = [] \<and>
         (\<forall>r. snd (ai_insights env b) = Inr r \<longrightarrow>
              r = \<lparr> status = 400, body = JObj [(''error'', JStr (validation_error Insights))] \<rparr>)"
  using assms(2) ensure_Some [OF assms(1)]
  unfolding ai_insights_def Let_def
  by (auto simp: has_text_def js_or_def split: sum.splits)

lemma summary_validation:
  assumes "openAiClient env = Some create" and "fails_required_input Summary b"
  shows "fst (ai_summary env b) = [] \<and>
         (\<forall>r. snd (ai_summary env b) = Inr r \<longrightarrow>
              r = \<lparr> status = 400, body = JObj [(''error'', JStr (validation_error Summary))] \<rparr>)"
  using assms(2) ensure_Some [OF assms(1)]
  unfolding ai_summary_def Let_def
  by (simp add: normalizeEntries_no_items normalizeMoods_no_items js_or_def)

lemma goals_validation:
  assumes "openAiClient env = Some create" and "fails_required_input Goals b"
  shows "fst (ai_goals env b) = [] \<and>
         (\<forall>r. snd (ai_goals env b) = Inr r \<longrightarrow>
              r = \<lparr> status = 400, body = JObj [(''error'', JStr (validation_error Goals))] \<rparr>)"
proof -
  have a: "list_all (\<lambda>g. \<not> has_text g 160) (clipCollection (opt_get b ''goals'') 10)"
    using assms(2) by (intro list_all_clip) simp
  show ?thesis
    using ensure_Some [OF assms(1)] sanitized_all_empty [OF _ a]
    unfolding ai_goals_def Let_def
    by (auto split: sum.splits)
qed

lemma anomaly_validation:
  assumes "openAiClient env = Some create" and "fails_required_input Anomaly b"
  shows "fst (ai_anomaly env b) = [] \<and>
         (\<forall>r. snd (ai_anomaly env b) = Inr r \<longrightarrow>
              r = \<lparr> status = 400, body = JObj [(''error'', JStr (validation_error Anomaly))] \<rparr>)"
  using assms(2) ensure_Some [OF assms(1)]
  unfolding ai_anomaly_def Let_def
  by (simp add: normalizeEntries_no_items normalizeMoods_no_items)

lemma pattern_validation:
  assumes "openAiClient env = Some create" and "fails_required_input Pattern b"
  shows "fst (ai_pattern env b) = [] \<and>
         (\<forall>r. snd (ai_pattern env b) = Inr r \<longrightarrow>
              r = \<lparr> status = 400, body = JObj [(''error'', JStr (validation_error Pattern))] \<rparr>)"
  using assms(2) ensure_Some [OF assms(1)]
  unfolding ai_pattern_def Let_def
  by (simp add: normalizeEntries_no_items)

lemma transcript_validation:
  assumes "openAiClient env = Some create" and "fails_required_input Transcript b"
  shows "fst (ai_transcript env b) = [] \<and>
         (\<forall>r. snd (ai_transcript env b) = Inr r \<longrightarrow>
              r = \<lparr> status = 400, body = JObj [(''error'', JStr (validation_error Transcript))] \<rparr>)"
  using assms(2) ensure_Some [OF assms(1)]
  unfolding ai_transcript_def transcript_note_def Let_def
  by (auto simp: has_text_def split: sum.splits)

lemma partner_validation:
  assumes "openAiClient env = Some create" and "fails_required_input Partner b"
  shows "fst (ai_partner env b) = [] \<and>
         (\<forall>r. snd (ai_partner env b) = Inr r \<longrightarrow>
              r = \<lparr> status = 400, body = JObj [(''error'', JStr (validation_error Partner))] \<rparr>)"
  using assms(2) ensure_Some [OF assms(1)]
  unfolding ai_partner_def Let_def
  by (auto simp: js_or_def split: sum.splits)

lemma handle_validation:
  assumes "openAiClient env = Some create" and "fails_required_input op b"
  shows "fst (handle op env b) = [] \<and>
         (\<forall>r. snd (handle op env b) = Inr r \<longrightarrow>
              r = \<lparr> status = 400, body = JObj [(''error'', JStr (validation_error op))] \<rparr>)"
proof (cases op)
  case Insights
  with assms insights_validation [of env create b] show ?thesis by simp
next
  case Prompt
  with assms show ?thesis by simp
next
  case Summary
  with assms summary_validation [of env create b] show ?thesis by simp
next
  case Goals
  with assms goals_validation [of env create b] show ?thesis by simp
next
  case Anomaly
  with assms anomaly_validation [of env create b] show ?thesis by simp
next
  case Pattern
  with assms pattern_validation [of env create b] show ?thesis by simp
next
  case Transcript
  with assms transcript_validation [of env create b] show ?thesis by simp
next
  case Partner
  with assms partner_validation [of env create b] show ?thesis by simp
next
  case Chat
  with assms show ?thesis by simp
qed

lemma validation_error_nonempty: "fails_required_input op b \<Longrightarrow> validation_error op \<noteq> []"
  by (cases op) simp_all

lemma insights_responds:
  assumes "plain b"
  shows "\<exists>r. snd (ai_insights env b) = Inr r"
proof -
  obtain e where e: "sanitize (opt_get b ''entry'') 800 = Inr e"
    using plain_sanitize [OF plain_opt_get [OF assms]] by blast
  have "\<exists>gs. (case opt_get b ''goals'' of
              JArr gs \<Rightarrow> sequence (map (\<lambda>g. sanitize g 120) gs)
            | _ \<Rightarrow> Inr []) = Inr gs"
    using plain_opt_get [OF assms, of "''goals''"] plain_sanitize_all
    by (cases "opt_get b ''goals''") auto
  then obtain gs where g: "(case opt_get b ''goals'' of
              JArr gs \<Rightarrow> sequence (map (\<lambda>g. sanitize g 120) gs)
            | _ \<Rightarrow> Inr []) = Inr gs" by blast
  show ?thesis
    unfolding ai_insights_def Let_def e g
    by (auto split: option.splits sum.splits prod.splits)
qed

lemma goals_responds:
  assumes "plain b"
  shows "\<exists>r. snd (ai_goals env b) = Inr r"
proof -
  obtain e where e: "sanitize (opt_get b ''entry'') 400 = Inr e"
    using plain_sanitize [OF plain_opt_get [OF assms]] by blast
  obtain gs where g: "sequence (map (\<lambda>goal. sanitize goal 160) (clipCollection (opt_get b ''goals'') 10)) = Inr gs"
    using plain_sanitize_all [OF plain_clip [OF plain_opt_get [OF assms]]] by blast
  show ?thesis
    unfolding ai_goals_def Let_def e g
    by (auto split: option.splits sum.splits prod.splits)
qed

lemma transcript_responds:
  assumes "plain b"
  shows "\<exists>r. snd (ai_transcript env b) = Inr r"
proof -
  obtain x where x: "sanitize (opt_get b ''voice_note'') 1800 = Inr x"
    using plain_sanitize [OF plain_opt_get [OF assms]] by blast
  obtain y where y: "sanitize (opt_get b ''voice_note_text'') 1800 = Inr y"
    using plain_sanitize [OF plain_opt_get [OF assms]] by blast
  obtain z where z: "sanitize (opt_get b ''note'') 1800 = Inr z"
    using plain_sanitize [OF plain_opt_get [OF assms]] by blast
  show ?thesis
    unfolding ai_transcript_def transcript_note_def Let_def x y z
    by (auto split: option.splits sum.splits prod.splits)
qed

lemma partner_responds:
  assumes "plain b"
  shows "\<exists>r. snd (ai_partner env b) = Inr r"
proof -
  have "plain (js_or (opt_get b ''audience'') (JStr ''partner''))"
    using plain_opt_get [OF assms] by (simp add: plain_js_or)
  then obtain a where a: "sanitize (js_or (opt_get b ''audience'') (JStr ''partner'')) 40 = Inr a"
    using plain_sanitize by blast
  show ?thesis
    unfolding ai_partner_def Let_def a
    by (auto split: option.splits sum.splits prod.splits)
qed

lemma handle_responds_on_failing:
  assumes "openAiClient env = Some create" and "fails_required_input op b" and "plain b"
  shows "\<exists>r. snd (handle op env b) = Inr r"
proof (cases op)
  case Insights
  with insights_responds [OF assms(3)] show ?thesis by simp
next
  case Prompt
  with assms(2) show ?thesis by simp
next
  case Summary
  with assms(2) ensure_Some [OF assms(1)] show ?thesis
    by (simp add: ai_summary_def normalizeEntries_no_items normalizeMoods_no_items js_or_def)
next
  case Goals
  with goals_responds [OF assms(3)] show ?thesis by simp
next
  case Anomaly
  with assms(2) ensure_Some [OF assms(1)] show ?thesis
    by (simp add: ai_anomaly_def normalizeEntries_no_items normalizeMoods_no_items)
next
  case Pattern
  with assms(2) ensure_Some [OF assms(1)] show ?thesis
    by (simp add: ai_pattern_def normalizeEntries_no_items)
next
  case Transcript
  with transcript_responds [OF assms(3)] show ?thesis by simp
next
  case Partner
  with partner_responds [OF assms(3)] show ?thesis by simp
next
  case Chat
  with assms(2) show ?thesis by simp
qed

text \<open>
  C2, amended. On a configured gateway, a request body that fails the required-input
  check of its operation causes no request to the LLM; a response that the handler sends
  has status 400 and the operation's non-empty message that names the missing input; and
  the handler does send it when the body is plain. (On other bodies the sanitizing that
  runs before the check can throw.)
\<close>

theorem validation_rejects:
  assumes "openAiClient env = Some create" and "fails_required_input op reqbody"
  shows "fst (handle op env reqbody) = [] \<and>
         (\<forall>r. snd (handle op env reqbody) = Inr r \<longrightarrow>
              status r = 400 \<and> body r = JObj [(''error'', JStr (validation_error op))] \<and>
              validation_error op \<noteq> []) \<and>
         (plain reqbody \<longrightarrow>
            handle op env reqbody =
              ([], Inr \<lparr> status = 400, body = JObj [(''error'', JStr (validation_error op))] \<rparr>))"
proof -
  have a: "fst (handle op env reqbody) = []" and
       b: "\<forall>r. snd (handle op env reqbody) = Inr r \<longrightarrow>
              r = \<lparr> status = 400, body = JObj [(''error'', JStr (validation_error op))] \<rparr>"
    using handle_validation [OF assms] by simp_all
  have c: "handle op env reqbody =
              ([], Inr \<lparr> status = 400, body = JObj [(''error'', JStr (validation_error op))] \<rparr>)"
    if "plain reqbody"
  proof -
    from handle_responds_on_failing [OF assms that] obtain r where
      "snd (handle op env reqbody) = Inr r" by blast
    with a b show ?thesis
      by (cases "handle op env reqbody") auto
  qed
  have d: "\<forall>r. snd (handle op env reqbody) = Inr r \<longrightarrow>
              status r = 400 \<and> body r = JObj [(''error'', JStr (validation_error op))] \<and>
              validation_error op \<noteq> []"
  proof (intro allI impI)
    fix r assume "snd (handle op env reqbody) = Inr r"
    with b have "r = \<lparr> status = 400, body = JObj [(''error'', JStr (validation_error op))] \<rparr>"
      by blast
    then show "status r = 400 \<and> body r = JObj [(''error'', JStr (validation_error op))] \<and>
              validation_error op \<noteq> []"
      using validation_error_nonempty [OF assms(2)] by simp
  qed
  from a d c show ?thesis by blast
qed

text \<open>The theorem for the goals route with goals that sanitize to nothing.\<close>

theorem validation_rejects_witness:
  "openAiClient (sample_env (Some (\<lambda>r. Inr (completion (JStr ''{}''))))) = Some (\<lambda>r. Inr (completion (JStr ''{}''))) \<and>
   fails_required_input Goals (JObj [(''goals'', JArr [JStr ''   '', JNull]), (''entry'', JStr ''walked'')]) \<and>
   plain (JObj [(''goals'', JArr [JStr ''   '', JNull]), (''entry'', JStr ''walked'')]) \<and>
   handle Goals (sample_env (Some (\<lambda>r. Inr (completion (JStr ''{}'')))))
       (JObj [(''goals'', JArr [JStr ''   '', JNull]), (''entry'', JStr ''walked'')])
     = ([], Inr \<lparr> status = 400, body = JObj [(''error'', JStr ''Provide at least one goal.'')] \<rparr>)"
proof -
  let ?c = "\<lambda>r::chat_request. (Inr (completion (JStr ''{}'')) :: js_exn + (string \<times> jsval) list)"
  let ?b = "JObj [(''goals'', JArr [JStr ''   '', JNull]), (''entry'', JStr ''walked'')]"
  have c: "openAiClient (sample_env (Some ?c)) = Some ?c"
    by (simp add: sample_env_def)
  have f: "fails_required_input Goals ?b"
    by (simp add: opt_get_def has_text_def sanitize_def trim_def is_ws_def)
  have p: "plain ?b"
    by simp
  from validation_rejects [OF c f] p
  have "handle Goals (sample_env (Some ?c)) ?b
     = ([], Inr \<lparr> status = 400, body = JObj [(''error'', JStr ''Provide at least one goal.'')] \<rparr>)"
    by simp
  with c f p show ?thesis by simp
qed

text \<open>
  C2 as stated fails in two ways. Without an API key the guard answers 503 before any
  check. And the partner handler sanitizes \<open>audience\<close> before its check: with an
  \<open>audience\<close> that has no string form the handler throws, no 400 is sent.
\<close>

theorem validation_counterexample:
  "fails_required_input Insights (JObj []) \<and>
   handle Insights (sample_env None) (JObj []) =
     ([], Inr \<lparr> status = 503,
                 body = JObj [(''ok'', JBool False),
                              (''error'', JStr ''OPENAI_API_KEY is not configured on the API gateway'')] \<rparr>) \<and>
   fails_required_input Partner (JObj [(''audience'', JObj [(''toString'', JNum 1)])]) \<and>
   handle Partner (sample_env (Some (\<lambda>r. Inr (completion (JStr ''{}'')))))
       (JObj [(''audience'', JObj [(''toString'', JNum 1)])])
     = ([], Inl (TypeError ''Cannot convert object to primitive value''))"
  by (simp add: ai_insights_def ai_partner_def ensureOpenAi_def sample_env_def config_error_def
      opt_get_def has_text_def sanitize_def js_or_def)

subsection \<open>Response shaping\<close>

lemma insights_success:
  assumes "openAiClient env = Some create" and "ai_insights env reqbody = (sent, Inr r)"
    and "req \<in> set sent" and "create req = Inr resp"
  shows "status r = 200 \<and> own_prop (body r) (envelope_key Insights) = parsed_reply env resp"
  using assms(2,3,4) ensure_Some [OF assms(1)]
  unfolding ai_insights_def Let_def parsed_reply_def
  by (auto split: sum.splits if_splits prod.splits dest!: runJsonChat_configured [OF assms(1)])

lemma summary_success:
  assumes "openAiClient env = Some create" and "ai_summary env reqbody = (sent, Inr r)"
    and "req \<in> set sent" and "create req = Inr resp"
  shows "status r = 200 \<and> own_prop (body r) (envelope_key Summary) = parsed_reply env resp"
  using assms(2,3,4) ensure_Some [OF assms(1)]
  unfolding ai_summary_def Let_def parsed_reply_def
  by (auto split: sum.splits if_splits prod.splits dest!: runJsonChat_configured [OF assms(1)])

lemma anomaly_success:
  assumes "openAiClient env = Some create" and "ai_anomaly env reqbody = (sent, Inr r)"
    and "req \<in> set sent" and "create req = Inr resp"
  shows "status r = 200 \<and> own_prop (body r) (envelope_key Anomaly) = parsed_reply env resp"
  using assms(2,3,4) ensure_Some [OF assms(1)]
  unfolding ai_anomaly_def Let_def parsed_reply_def
  by (auto split: sum.splits if_splits prod.splits dest!: runJsonChat_configured [OF assms(1)])

lemma pattern_success:
  assumes "openAiClient env = Some create" and "ai_pattern env reqbody = (sent, Inr r)"
    and "req \<in> set sent" and "create req = Inr resp"
  shows "status r = 200 \<and> own_prop (body r) (envelope_key Pattern) = parsed_reply env resp"
  using assms(2,3,4) ensure_Some [OF assms(1)]
  unfolding ai_pattern_def Let_def parsed_reply_def
  by (auto split: sum.splits if_splits prod.splits dest!: runJsonChat_configured [OF assms(1)])

lemma transcript_success:
  assumes "openAiClient env = Some create" and "ai_transcript env reqbody = (sent, Inr r)"
    and "req \<in> set sent" and "create req = Inr resp"
  shows "status r = 200 \<and> own_prop (body r) (envelope_key Transcript) = parsed_reply env resp"
  using assms(2,3,4) ensure_Some [OF assms(1)]
  unfolding ai_transcript_def Let_def parsed_reply_def
  by (auto split: sum.splits if_splits prod.splits dest!: runJsonChat_configured [OF assms(1)])

lemma partner_success:
  assumes "openAiClient env = Some create" and "ai_partner env reqbody = (sent, Inr r)"
    and "req \<in> set sent" and "create req = Inr resp"
  shows "status r = 200 \<and> own_prop (body r) (envelope_key Partner) = parsed_reply env resp"
  using assms(2,3,4) ensure_Some [OF assms(1)]
  unfolding ai_partner_def Let_def parsed_reply_def
  by (auto split: sum.splits if_splits prod.splits dest!: runJsonChat_configured [OF assms(1)])

lemma get_Inr: "get v k = Inr x \<Longrightarrow> x = own_prop v k"
  by (cases v) (simp_all add: get_def)

lemma get_Inl: "get v k = Inl e \<Longrightarrow> \<exists>m. e = TypeError m"
  by (cases v) (auto simp: get_def)

lemma goals_success:
  assumes "openAiClient env = Some create" and "ai_goals env reqbody = (sent, Inr r)"
    and "req \<in> set sent" and "create req = Inr resp" and "status r = 200"
  shows "own_prop (body r) ''reflections'' = js_or (own_prop (parsed_reply env resp) ''reflections'') (JArr [])"
  using assms(2,3,4,5) ensure_Some [OF assms(1)]
  unfolding ai_goals_def Let_def parsed_reply_def
  by (auto simp: catch_response_def split: sum.splits if_splits prod.splits
        dest!: runJsonChat_configured [OF assms(1)] get_Inl get_Inr)

lemma trimmed_reply_Inr:
  "trimmed_reply resp = Inr v \<Longrightarrow>
     js_or v (JStr d) = JStr (str_or (trim (text_of (reply_content resp))) d)"
  by (auto simp: trimmed_reply_def js_or_def str_or_def text_of_def trim_def split: jsval.splits)

lemma trimmed_reply_Inl: "trimmed_reply resp = Inl e \<Longrightarrow> \<exists>m. e = TypeError m"
  by (auto simp: trimmed_reply_def split: jsval.splits)

lemma prompt_success:
  assumes "openAiClient env = Some create" and "ai_prompt env reqbody = (sent, Inr r)"
    and "req \<in> set sent" and "create req = Inr resp" and "status r = 200"
  shows "own_prop (body r) ''prompt'' =
           JStr (str_or (trim (text_of (reply_content resp)))
                        ''Take a mindful breath and describe one highlight from today.'')"
  using assms(2,3,4,5) ensure_Some [OF assms(1)]
  unfolding ai_prompt_def Let_def
  by (auto simp: catch_response_def split: sum.splits if_splits prod.splits
        dest!: runChat_configured [OF assms(1)] trimmed_reply_Inl dest: trimmed_reply_Inr)

lemma chat_success:
  assumes "openAiClient env = Some create" and "ai_chat env reqbody = (sent, Inr r)"
    and "req \<in> set sent" and "create req = Inr resp" and "status r = 200"
  shows "own_prop (body r) ''reply'' =
           JStr (str_or (trim (text_of (reply_content resp)))
                        ''Take a calming breath and notice one thing you appreciate in this moment.'')"
  using assms(2,3,4,5) ensure_Some [OF assms(1)]
  unfolding ai_chat_def Let_def
  by (auto simp: catch_response_def split: sum.splits if_splits prod.splits
        dest!: runChat_configured [OF assms(1)] trimmed_reply_Inl dest: trimmed_reply_Inr)

lemma str_or_nonempty: "d \<noteq> [] \<Longrightarrow> str_or a d \<noteq> []"
  by (simp add: str_or_def)

text \<open>
  C5, amended. In a 200 response to a completed call: the prompt route's \<open>prompt\<close> and the
  chat route's \<open>reply\<close> are the trimmed reply content when that is a non-empty string and a
  fixed non-empty default otherwise; the goals route's \<open>reflections\<close> is the parsed reply's
  \<open>reflections\<close> when truthy and the empty array otherwise; the other JSON-mode routes
  return the parsed reply as it is (the empty object when it does not parse), with no
  fallback for a field the model leaves out.
\<close>

theorem reply_fallbacks:
  assumes "openAiClient env = Some create" and "handle op env reqbody = (sent, Inr r)"
    and "req \<in> set sent" and "create req = Inr resp" and "status r = 200"
  shows "(op = Prompt \<longrightarrow>
            (\<exists>p. own_prop (body r) ''prompt'' = JStr p \<and> p \<noteq> [] \<and>
                 p = str_or (trim (text_of (reply_content resp)))
                       ''Take a mindful breath and describe one highlight from today.'')) \<and>
         (op = Chat \<longrightarrow>
            (\<exists>p. own_prop (body r) ''reply'' = JStr p \<and> p \<noteq> [] \<and>
                 p = str_or (trim (text_of (reply_content resp)))
                       ''Take a calming breath and notice one thing you appreciate in this moment.'')) \<and>
         (op = Goals \<longrightarrow>
            own_prop (body r) ''reflections'' =
              js_or (own_prop (parsed_reply env resp) ''reflections'') (JArr [])) \<and>
         (op \<in> {Insights, Summary, Anomaly, Pattern, Transcript, Partner} \<longrightarrow>
            own_prop (body r) (envelope_key op) = parsed_reply env resp)"
proof (cases op)
  case Insights
  with assms(2) have "ai_insights env reqbody = (sent, Inr r)" by simp
  from insights_success [OF assms(1) this assms(3,4)] Insights show ?thesis by simp
next
  case Prompt
  with assms(2) have "ai_prompt env reqbody = (sent, Inr r)" by simp
  from prompt_success [OF assms(1) this assms(3,4,5)] Prompt show ?thesis
    by (simp add: str_or_nonempty)
next
  case Summary
  with assms(2) have "ai_summary env reqbody = (sent, Inr r)" by simp
  from summary_success [OF assms(1) this assms(3,4)] Summary show ?thesis by simp
next
  case Goals
  with assms(2) have "ai_goals env reqbody = (sent, Inr r)" by simp
  from goals_success [OF assms(1) this assms(3,4,5)] Goals show ?thesis by simp
next
  case Anomaly
  with assms(2) have "ai_anomaly env reqbody = (sent, Inr r)" by simp
  from anomaly_success [OF assms(1) this assms(3,4)] Anomaly show ?thesis by simp
next
  case Pattern
  with assms(2) have "ai_pattern env reqbody = (sent, Inr r)" by simp
  from pattern_success [OF assms(1) this assms(3,4)] Pattern show ?thesis by simp
next
  case Transcript
  with assms(2) have "ai_transcript env reqbody = (sent, Inr r)" by simp
  from transcript_success [OF assms(1) this assms(3,4)] Transcript show ?thesis by simp
next
  case Partner
  with assms(2) have "ai_partner env reqbody = (sent, Inr r)" by simp
  from partner_success [OF assms(1) this assms(3,4)] Partner show ?thesis by simp
next
  case Chat
  with assms(2) have "ai_chat env reqbody = (sent, Inr r)" by simp
  from chat_success [OF assms(1) this assms(3,4,5)] Chat show ?thesis
    by (simp add: str_or_nonempty)
qed

text \<open>The theorem for the prompt route when the model replies with blanks only.\<close>

theorem reply_fallbacks_witness:
  "openAiClient (sample_env (Some (\<lambda>r. Inr (completion (JStr ''   ''))))) = Some (\<lambda>r. Inr (completion (JStr ''   ''))) \<and>
   snd (handle Prompt (sample_env (Some (\<lambda>r. Inr (completion (JStr ''   ''))))) (JObj [])) =
     Inr \<lparr> status = 200,
            body = JObj [(''prompt'', JStr ''Take a mindful breath and describe one highlight from today.''),
                         (''usage'', JNull)] \<rparr>"
proof -
  let ?c = "\<lambda>r::chat_request. (Inr (completion (JStr ''   '')) :: js_exn + (string \<times> jsval) list)"
  have c: "openAiClient (sample_env (Some ?c)) = Some ?c"
    by (simp add: sample_env_def)
  have "\<exists>req u. handle Prompt (sample_env (Some ?c)) (JObj []) =
          ([req], Inr \<lparr> status = 200, body = JObj [(''prompt'', u), (''usage'', JNull)] \<rparr>)"
    by (simp add: ai_prompt_def ensureOpenAi_def sample_env_def opt_get_def sanitize_def runChat_def
        Let_def trimmed_reply_def reply_content_def completion_def js_or_def)
  then obtain req u where h: "handle Prompt (sample_env (Some ?c)) (JObj []) =
          ([req], Inr \<lparr> status = 200, body = JObj [(''prompt'', u), (''usage'', JNull)] \<rparr>)"
    by blast
  have rc: "reply_content (completion (JStr ''   '')) = JStr ''   ''"
    by (simp add: reply_content_def completion_def opt_get_def)
  from reply_fallbacks [OF c h, of req "completion (JStr ''   '')"] rc
  have "u = JStr ''Take a mindful breath and describe one highlight from today.''"
    by (simp add: text_of_def trim_def is_ws_def str_or_def)
  with h c show ?thesis by simp
qed

text \<open>
  C5 as stated fails on the JSON-mode routes: when the model replies \<open>{}\<close> the insights
  route answers 200 with an empty \<open>insights\<close> object, in which \<open>summary\<close> and the other
  fields are absent.
\<close>

theorem reply_fallbacks_counterexample:
  "snd (handle Insights (sample_env (Some (\<lambda>r. Inr (completion (JStr ''{}'')))))
          (JObj [(''entry'', JStr ''Had coffee with a friend'')]))
     = Inr \<lparr> status = 200, body = JObj [(''insights'', JObj []), (''usage'', JNull)] \<rparr> \<and>
   own_prop (JObj []) ''summary'' = JUndef"
  by (simp add: ai_insights_def ensureOpenAi_def sample_env_def opt_get_def sanitize_def trim_def
      is_ws_def js_or_def runJsonChat_def runChat_def Let_def safeJsonParse_def reply_content_def
      completion_def sample_parse_def)

subsection \<open>The chat route's message list\<close>

lemma push_history_forward:
  "push_history h acc = Inr ms \<Longrightarrow> ms = acc @ concat (map forward_message h)"
proof (induction h arbitrary: acc)
  case Nil
  then show ?case by simp
next
  case (Cons msg rest)
  from Cons.prems obtain r c where
    r: "get msg ''role'' = Inr r" and
    c: "sanitize (js_or (js_or (own_prop msg ''content'') (own_prop msg ''text'')) (JStr [])) 1200 = Inr c" and
    p: "push_history rest
          (if c \<noteq> []
           then acc @ [\<lparr> role = (if r = JStr ''assistant'' then ''assistant'' else ''user''), content = c \<rparr>]
           else acc) = Inr ms"
    by (auto split: sum.splits)
  from r have r': "r = own_prop msg ''role''" by (rule get_Inr)
  from c r' have f: "forward_message msg =
      (if c = [] then []
       else [\<lparr> role = (if r = JStr ''assistant'' then ''assistant'' else ''user''), content = c \<rparr>])"
    by (simp add: forward_message_def)
  from Cons.IH [OF p] f show ?case by simp
qed

lemma forward_message_roles:
  "m \<in> set (forward_message msg) \<Longrightarrow> role m = ''assistant'' \<or> role m = ''user''"
  by (auto simp: forward_message_def split: sum.splits if_splits)

lemma forward_message_not_system:
  "m \<in> set (forward_message msg) \<Longrightarrow> role m \<noteq> ''system''"
  by (auto simp: forward_message_def split: sum.splits if_splits)

text \<open>
  C10. Whatever the chat route sends to the chat invoker starts with the fixed system
  message, and no later message has the role \<open>system\<close>: when the conversation history is a
  non-empty array the rest is the history in client order, each element forwarded with the
  role \<open>assistant\<close> only for the exact role \<open>"assistant"\<close> and \<open>user\<close> otherwise, elements
  with empty sanitized content dropped; otherwise the rest is the single user message
  seeded with the topic.
\<close>

theorem chat_message_list:
  assumes "openAiClient env = Some create" and "handle Chat env reqbody = (sent, out)"
    and "req \<in> set sent"
  shows "\<exists>rest. messages req = chat_system_message # rest \<and>
           role chat_system_message = ''system'' \<and>
           (\<forall>m \<in> set rest. role m = ''assistant'' \<or> role m = ''user'') \<and>
           (\<forall>m \<in> set rest. role m \<noteq> ''system'') \<and>
           (case opt_get reqbody ''conversation'' of
              JArr (x # xs) \<Rightarrow> rest = concat (map forward_message (x # xs))
            | _ \<Rightarrow> (\<exists>t. sanitize (opt_get reqbody ''topic'') 120 = Inr t \<and>
                          rest = [\<lparr> role = ''user'',
                                    content = ''I'd like to talk about '' @ str_or t ''overall wellbeing'' @ ''.'' \<rparr>]))"
proof -
  let ?history = "case opt_get reqbody ''conversation'' of JArr h \<Rightarrow> h | _ \<Rightarrow> []"
  from assms(2,3) ensure_Some [OF assms(1)] obtain t msgs where
    t: "sanitize (opt_get reqbody ''topic'') 120 = Inr t" and
    b: "(if length ?history \<noteq> 0
         then push_history ?history [chat_system_message]
         else Inr [chat_system_message,
                   \<lparr> role = ''user'', content = ''I'd like to talk about '' @ str_or t ''overall wellbeing'' @ ''.'' \<rparr>])
        = Inr msgs" and
    m: "messages req = msgs"
    unfolding handle.simps ai_chat_def Let_def
    by (auto split: sum.splits prod.splits dest!: runChat_configured [OF assms(1)])
  show ?thesis
  proof (cases "?history = []")
    case True
    with b m have r: "messages req = [chat_system_message,
                   \<lparr> role = ''user'', content = ''I'd like to talk about '' @ str_or t ''overall wellbeing'' @ ''.'' \<rparr>]"
      by simp
    from True have "case opt_get reqbody ''conversation'' of
              JArr (x # xs) \<Rightarrow> P x xs | _ \<Rightarrow> Q" if "Q" for P Q
      using that by (auto split: jsval.splits list.splits)
    with r t show ?thesis
      by (simp add: chat_system_message_def)
  next
    case False
    with b have "push_history ?history [chat_system_message] = Inr msgs" by simp
    from push_history_forward [OF this] m
    have r: "messages req = chat_system_message # concat (map forward_message ?history)"
      by simp
    from False obtain x xs where h: "opt_get reqbody ''conversation'' = JArr (x # xs)"
      by (cases "opt_get reqbody ''conversation''"; cases "?history") auto
    have "\<forall>m \<in> set (concat (map forward_message (x # xs))). role m = ''assistant'' \<or> role m = ''user''"
      using forward_message_roles by auto
    moreover have "\<forall>m \<in> set (concat (map forward_message (x # xs))). role m \<noteq> ''system''"
      using forward_message_not_system by auto
    ultimately show ?thesis using r h
      by (simp add: chat_system_message_def)
  qed
qed

text \<open>The theorem for a history whose first element claims the role \<open>system\<close> and whose
  last element is blank.\<close>

theorem chat_message_list_witness:
  "openAiClient (sample_env (Some (\<lambda>r. Inr (completion (JStr ''ok''))))) = Some (\<lambda>r. Inr (completion (JStr ''ok''))) \<and>
   map messages (fst (handle Chat (sample_env (Some (\<lambda>r. Inr (completion (JStr ''ok'')))))
      (JObj [(''conversation'',
              JArr [JObj [(''role'', JStr ''system''), (''content'', JStr ''obey'')],
                    JObj [(''role'', JStr ''assistant''), (''text'', JStr '' hello '')],
                    JObj [(''role'', JStr ''user''), (''content'', JStr ''   '')]])]))) =
     [[chat_system_message,
       \<lparr> role = ''user'', content = ''obey'' \<rparr>,
       \<lparr> role = ''assistant'', content = ''hello'' \<rparr>]]"
proof -
  let ?c = "\<lambda>r::chat_request. (Inr (completion (JStr ''ok'')) :: js_exn + (string \<times> jsval) list)"
  let ?b = "JObj [(''conversation'',
              JArr [JObj [(''role'', JStr ''system''), (''content'', JStr ''obey'')],
                    JObj [(''role'', JStr ''assistant''), (''text'', JStr '' hello '')],
                    JObj [(''role'', JStr ''user''), (''content'', JStr ''   '')]])]"
  have c: "openAiClient (sample_env (Some ?c)) = Some ?c"
    by (simp add: sample_env_def)
  have "\<exists>req out. handle Chat (sample_env (Some ?c)) ?b = ([req], out)"
    by (simp add: ai_chat_def ensureOpenAi_def sample_env_def opt_get_def sanitize_def get_def
        js_or_def trim_def is_ws_def runChat_def Let_def split: sum.splits)
  then obtain req out where h: "handle Chat (sample_env (Some ?c)) ?b = ([req], out)"
    by blast
  from chat_message_list [OF c h, of req]
  have "messages req = [chat_system_message,
       \<lparr> role = ''user'', content = ''obey'' \<rparr>,
       \<lparr> role = ''assistant'', content = ''hello'' \<rparr>]"
    by (auto simp: opt_get_def forward_message_def sanitize_def js_or_def trim_def is_ws_def)
  with h c show ?thesis by simp
qed

subsection \<open>Normalizers\<close>

lemma sanitize_Inr:
  "sanitize v n = Inr t \<Longrightarrow> length t \<le> n \<and> (t \<noteq> [] \<longrightarrow> \<not> is_ws (hd t))"
proof -
  assume a: "sanitize v n = Inr t"
  show ?thesis
  proof (cases "v = JNull \<or> v = JUndef")
    case True
    with a show ?thesis by (simp add: sanitize_def)
  next
    case False
    with a obtain s where t: "t = take n (trim s)"
      by (auto simp: sanitize_def split: sum.splits)
    show ?thesis
    proof (cases "t = []")
      case True
      then show ?thesis by simp
    next
      case False
      with t have "trim s \<noteq> []" and "n \<noteq> 0" by auto
      with t show ?thesis using trim_hd [of s] by simp
    qed
  qed
qed

lemma sanitize_fixed:
  assumes "length t \<le> n" and "t \<noteq> [] \<longrightarrow> \<not> is_ws (hd t)" and "\<not> ends_in_ws t"
  shows "sanitize (js_or (JStr t) (JStr [])) n = Inr t"
proof -
  have "trim t = t"
    using assms(2,3) by (intro trim_fixed) (auto simp: ends_in_ws_def)
  moreover have "js_or (JStr t) (JStr []) = JStr t"
    by (simp add: js_or_def)
  ultimately show ?thesis using assms(1) by (simp add: sanitize_def)
qed

lemma created_at_fixed:
  "truthy c \<or> c = JNull \<Longrightarrow> js_or c JNull = c \<and> js_or (js_or c JUndef) JNull = c"
  by (auto simp: js_or_def)

lemma js_or_JNull: "truthy (js_or a JNull) \<or> js_or a JNull = JNull"
  by (simp add: js_or_def)

lemma normalizeEntry_fixed:
  assumes "normalizeEntry item = Inr y" and "uncut y"
  shows "normalizeEntry y = Inr y"
proof -
  from assms(1) obtain t where
    t: "sanitize (js_or (opt_get item ''text'') (JStr [])) 500 = Inr t" and
    y: "y = JObj [(''text'', JStr t),
                  (''created_at'', js_or (js_or (opt_get item ''created_at'') (opt_get item ''createdAt'')) JNull)]"
    by (auto simp: normalizeEntry_def split: sum.splits)
  let ?c = "js_or (js_or (opt_get item ''created_at'') (opt_get item ''createdAt'')) JNull"
  from assms(2) y have u: "\<not> ends_in_ws t"
    by (simp add: uncut_def str_field_def)
  from sanitize_Inr [OF t] u have s: "sanitize (js_or (JStr t) (JStr [])) 500 = Inr t"
    by (intro sanitize_fixed) simp_all
  have c: "js_or (js_or ?c JUndef) JNull = ?c"
    using js_or_JNull by (intro conjunct2 [OF created_at_fixed])
  from s c show ?thesis
    unfolding y by (simp add: normalizeEntry_def opt_get_def)
qed

lemma normalizeMood_fixed:
  assumes "normalizeMood item = Inr y" and "uncut y"
  shows "normalizeMood y = Inr y"
proof -
  from assms(1) obtain m n where
    m: "sanitize (js_or (opt_get item ''mood'') (JStr [])) 50 = Inr m" and
    n: "sanitize (js_or (opt_get item ''note'') (JStr [])) 240 = Inr n" and
    y: "y = JObj [(''mood'', JStr m), (''note'', JStr n),
                  (''created_at'', js_or (opt_get item ''created_at'') JNull)]"
    by (auto simp: normalizeMood_def split: sum.splits)
  let ?c = "js_or (opt_get item ''created_at'') JNull"
  from assms(2) y have u: "\<not> ends_in_ws m" "\<not> ends_in_ws n"
    by (simp_all add: uncut_def str_field_def)
  from sanitize_Inr [OF m] u(1) have sm: "sanitize (js_or (JStr m) (JStr [])) 50 = Inr m"
    by (intro sanitize_fixed) simp_all
  from sanitize_Inr [OF n] u(2) have sn: "sanitize (js_or (JStr n) (JStr [])) 240 = Inr n"
    by (intro sanitize_fixed) simp_all
  have c: "js_or ?c JNull = ?c"
    using js_or_JNull by (intro conjunct1 [OF created_at_fixed])
  from sm sn c show ?thesis
    unfolding y by (simp add: normalizeMood_def opt_get_def)
qed

lemma normalize_list_fixed:
  assumes "sequence (map f (clipCollection xs n)) = Inr ys"
    and "\<And>item y. f item = Inr y \<Longrightarrow> uncut y \<Longrightarrow> f y = Inr y"
    and "list_all uncut ys"
  shows "sequence (map f (clipCollection (JArr ys) n)) = Inr ys"
proof -
  from assms(1) have m: "map f (clipCollection xs n) = map Inr ys"
    by (simp add: sequence_Inr_iff)
  then have "length (clipCollection xs n) = length ys"
    by (metis length_map)
  moreover have "length (clipCollection xs n) \<le> n"
    by (cases xs) (simp_all add: clipCollection_def)
  ultimately have c: "clipCollection (JArr ys) n = ys"
    by (simp add: clipCollection_def)
  have "map f ys = map Inr ys"
  proof (rule map_cong [OF refl])
    fix y assume y: "y \<in> set ys"
    then have "Inr y \<in> set (map f (clipCollection xs n))"
      using m by simp
    then obtain item where "f item = Inr y" by auto
    moreover from y assms(3) have "uncut y" by (simp add: list_all_iff)
    ultimately show "f y = Inr y" by (rule assms(2))
  qed
  with c show ?thesis by (simp add: sequence_Inr_iff)
qed

lemma dropWhile_ws_replicate:
  "\<not> is_ws a \<Longrightarrow> dropWhile is_ws (replicate n a @ s) = (if n = 0 then dropWhile is_ws s else replicate n a @ s)"
  by (cases n) simp_all

lemma trim_cut_text:
  assumes "\<not> is_ws a" and "n \<noteq> 0"
  shows "trim (replicate n a @ '' '') = replicate n a"
proof -
  have 1: "dropWhile is_ws (replicate n a @ '' '') = replicate n a @ '' ''"
    using assms by (simp add: dropWhile_ws_replicate)
  have 2: "rev (replicate n a @ '' '') = CHR '' '' # replicate n a"
    by simp
  have 3: "dropWhile is_ws (CHR '' '' # replicate n a) = replicate n a"
    using assms dropWhile_ws_replicate [of a n "[]"] by (simp add: is_ws_def)
  show ?thesis
    unfolding trim_def 1 2 3 by simp
qed

lemma trim_long_text:
  assumes "\<not> is_ws a" and "n \<noteq> 0"
  shows "trim (replicate n a @ '' b'') = replicate n a @ '' b''"
  using assms by (intro trim_fixed) (simp_all add: is_ws_def)

text \<open>
  C8, amended. Normalizing the output of a normalizer again changes nothing, provided no
  text field of that output ends in white space (which happens only where the cap cut a
  text just before white space).
\<close>

theorem normalizers_idempotent_uncut:
  "(normalizeEntries xs n = Inr ys \<longrightarrow> list_all uncut ys \<longrightarrow> normalizeEntries (JArr ys) n = Inr ys) \<and>
   (normalizeMoods ms n = Inr zs \<longrightarrow> list_all uncut zs \<longrightarrow> normalizeMoods (JArr zs) n = Inr zs)"
proof (intro conjI impI)
  assume a: "normalizeEntries xs n = Inr ys" and u: "list_all uncut ys"
  show "normalizeEntries (JArr ys) n = Inr ys"
    unfolding normalizeEntries_def
  proof (rule normalize_list_fixed)
    show "sequence (map normalizeEntry (clipCollection xs n)) = Inr ys"
      using a by (simp add: normalizeEntries_def)
    show "normalizeEntry y = Inr y" if "normalizeEntry item = Inr y" and "uncut y" for item y
      using that by (rule normalizeEntry_fixed)
    show "list_all uncut ys" by (rule u)
  qed
next
  assume a: "normalizeMoods ms n = Inr zs" and u: "list_all uncut zs"
  show "normalizeMoods (JArr zs) n = Inr zs"
    unfolding normalizeMoods_def
  proof (rule normalize_list_fixed)
    show "sequence (map normalizeMood (clipCollection ms n)) = Inr zs"
      using a by (simp add: normalizeMoods_def)
    show "normalizeMood y = Inr y" if "normalizeMood item = Inr y" and "uncut y" for item y
      using that by (rule normalizeMood_fixed)
    show "list_all uncut zs" by (rule u)
  qed
qed

text \<open>The theorem for two entries, one of them \<open>null\<close>, and for one mood.\<close>

theorem normalizers_idempotent_uncut_witness:
  "normalizeEntries (JArr [JObj [(''text'', JStr ''  sunny walk ''), (''createdAt'', JStr ''2024-05-01'')], JNull]) 20 =
     Inr [JObj [(''text'', JStr ''sunny walk''), (''created_at'', JStr ''2024-05-01'')],
          JObj [(''text'', JStr []), (''created_at'', JNull)]] \<and>
   list_all uncut [JObj [(''text'', JStr ''sunny walk''), (''created_at'', JStr ''2024-05-01'')],
                   JObj [(''text'', JStr []), (''created_at'', JNull)]] \<and>
   normalizeEntries (JArr [JObj [(''text'', JStr ''sunny walk''), (''created_at'', JStr ''2024-05-01'')],
                           JObj [(''text'', JStr []), (''created_at'', JNull)]]) 20 =
     Inr [JObj [(''text'', JStr ''sunny walk''), (''created_at'', JStr ''2024-05-01'')],
          JObj [(''text'', JStr []), (''created_at'', JNull)]] \<and>
   normalizeMoods (JArr [JObj [(''mood'', JStr ''calm ''), (''note'', JNum 7)]]) 20 =
     Inr [JObj [(''mood'', JStr ''calm''), (''note'', JStr ''7''), (''created_at'', JNull)]] \<and>
   list_all uncut [JObj [(''mood'', JStr ''calm''), (''note'', JStr ''7''), (''created_at'', JNull)]] \<and>
   normalizeMoods (JArr [JObj [(''mood'', JStr ''calm''), (''note'', JStr ''7''), (''created_at'', JNull)]]) 20 =
     Inr [JObj [(''mood'', JStr ''calm''), (''note'', JStr ''7''), (''created_at'', JNull)]]"
proof -
  let ?xs = "JArr [JObj [(''text'', JStr ''  sunny walk ''), (''createdAt'', JStr ''2024-05-01'')], JNull]"
  let ?ys = "[JObj [(''text'', JStr ''sunny walk''), (''created_at'', JStr ''2024-05-01'')],
          JObj [(''text'', JStr []), (''created_at'', JNull)]]"
  let ?ms = "JArr [JObj [(''mood'', JStr ''calm ''), (''note'', JNum 7)]]"
  let ?zs = "[JObj [(''mood'', JStr ''calm''), (''note'', JStr ''7''), (''created_at'', JNull)]]"
  have a: "normalizeEntries ?xs 20 = Inr ?ys"
    by (simp add: normalizeEntries_def normalizeEntry_def clipCollection_def opt_get_def js_or_def
        sanitize_def trim_def is_ws_def)
  have b: "list_all uncut ?ys"
    by (simp add: uncut_def str_field_def ends_in_ws_def is_ws_def)
  have c: "normalizeMoods ?ms 20 = Inr ?zs"
    by (simp add: normalizeMoods_def normalizeMood_def clipCollection_def opt_get_def js_or_def
        sanitize_def trim_def is_ws_def show_int_def digit_char_def)
  have d: "list_all uncut ?zs"
    by (simp add: uncut_def str_field_def ends_in_ws_def is_ws_def)
  from normalizers_idempotent_uncut [of ?xs 20 ?ys ?ms ?zs] a b c d
  show ?thesis by simp
qed

text \<open>
  C8 as stated fails. An entry text of 499 letters, a space and a letter is cut to 500
  code units, which end in the space; the second pass trims the space away. The same
  happens to a mood of 49 letters, a space and a letter under the cap 50.
\<close>

theorem normalizers_idempotent_counterexample:
  "normalizeEntries (JArr [JObj [(''text'', JStr (replicate 499 (CHR ''a'') @ '' b''))]]) 20 =
     Inr [JObj [(''text'', JStr (replicate 499 (CHR ''a'') @ '' '')), (''created_at'', JNull)]] \<and>
   normalizeEntries (JArr [JObj [(''text'', JStr (replicate 499 (CHR ''a'') @ '' '')), (''created_at'', JNull)]]) 20 =
     Inr [JObj [(''text'', JStr (replicate 499 (CHR ''a''))), (''created_at'', JNull)]] \<and>
   replicate 499 (CHR ''a'') @ '' '' \<noteq> replicate 499 (CHR ''a'') \<and>
   normalizeMoods (JArr [JObj [(''mood'', JStr ''aaaaaaaaaaaaaaaaaaaaaaaaaaaaaaaaaaaaaaaaaaaaaaaaa b'')]]) 20 =
     Inr [JObj [(''mood'', JStr ''aaaaaaaaaaaaaaaaaaaaaaaaaaaaaaaaaaaaaaaaaaaaaaaaa ''),
                (''note'', JStr []), (''created_at'', JNull)]] \<and>
   normalizeMoods (JArr [JObj [(''mood'', JStr ''aaaaaaaaaaaaaaaaaaaaaaaaaaaaaaaaaaaaaaaaaaaaaaaaa ''),
                               (''note'', JStr []), (''created_at'', JNull)]]) 20 =
     Inr [JObj [(''mood'', JStr ''aaaaaaaaaaaaaaaaaaaaaaaaaaaaaaaaaaaaaaaaaaaaaaaaa''),
                (''note'', JStr []), (''created_at'', JNull)]]"
proof -
  have a: "\<not> is_ws (CHR ''a'')" by (simp add: is_ws_def)
  have 1: "trim (replicate 499 (CHR ''a'') @ '' b'') = replicate 499 (CHR ''a'') @ '' b''"
    using a by (intro trim_long_text) simp_all
  have 2: "trim (replicate 499 (CHR ''a'') @ '' '') = replicate 499 (CHR ''a'')"
    using a by (intro trim_cut_text) simp_all
  have e: "normalizeEntries (JArr [JObj [(''text'', JStr (replicate 499 (CHR ''a'') @ '' b''))]]) 20 =
     Inr [JObj [(''text'', JStr (replicate 499 (CHR ''a'') @ '' '')), (''created_at'', JNull)]] \<and>
   normalizeEntries (JArr [JObj [(''text'', JStr (replicate 499 (CHR ''a'') @ '' '')), (''created_at'', JNull)]]) 20 =
     Inr [JObj [(''text'', JStr (replicate 499 (CHR ''a''))), (''created_at'', JNull)]] \<and>
   replicate 499 (CHR ''a'') @ '' '' \<noteq> replicate 499 (CHR ''a'')"
    by (simp add: normalizeEntries_def normalizeEntry_def clipCollection_def opt_get_def js_or_def
        sanitize_def 1 2)
  have m: "normalizeMoods (JArr [JObj [(''mood'', JStr ''aaaaaaaaaaaaaaaaaaaaaaaaaaaaaaaaaaaaaaaaaaaaaaaaa b'')]]) 20 =
     Inr [JObj [(''mood'', JStr ''aaaaaaaaaaaaaaaaaaaaaaaaaaaaaaaaaaaaaaaaaaaaaaaaa ''),
                (''note'', JStr []), (''created_at'', JNull)]] \<and>
   normalizeMoods (JArr [JObj [(''mood'', JStr ''aaaaaaaaaaaaaaaaaaaaaaaaaaaaaaaaaaaaaaaaaaaaaaaaa ''),
                               (''note'', JStr []), (''created_at'', JNull)]]) 20 =
     Inr [JObj [(''mood'', JStr ''aaaaaaaaaaaaaaaaaaaaaaaaaaaaaaaaaaaaaaaaaaaaaaaaa''),
                (''note'', JStr []), (''created_at'', JNull)]]"
    by (simp add: normalizeMoods_def normalizeMood_def clipCollection_def opt_get_def js_or_def
        sanitize_def trim_def is_ws_def)
  from e m show ?thesis by simp
qed

text \<open>
  C9 does not hold for moods: \<open>normalizeMoods\<close> reads \<open>created_at\<close> only, so a mood that
  carries its timestamp under \<open>createdAt\<close> comes out with \<open>created_at: null\<close>, where
  \<open>normalizeEntries\<close> takes the timestamp of the same shape of record.
\<close>

theorem normalizeMoods_ignores_createdAt:
  "normalizeMoods (JArr [JObj [(''mood'', JStr ''calm''), (''note'', JStr ''slept well''),
                               (''createdAt'', JStr ''2024-05-01T08:00:00Z'')]]) 20 =
     Inr [JObj [(''mood'', JStr ''calm''), (''note'', JStr ''slept well''), (''created_at'', JNull)]] \<and>
   normalizeEntries (JArr [JObj [(''text'', JStr ''slept well''),
                                 (''createdAt'', JStr ''2024-05-01T08:00:00Z'')]]) 20 =
     Inr [JObj [(''text'', JStr ''slept well''), (''created_at'', JStr ''2024-05-01T08:00:00Z'')]]"
  by (simp add: normalizeMoods_def normalizeMood_def normalizeEntries_def normalizeEntry_def
      clipCollection_def opt_get_def js_or_def sanitize_def trim_def is_ws_def)

end
